theory Spec2Isabelle
  imports Complex_Main "HOL-Library.Sublist"
begin

section \<open>Python values used by \<^verbatim>\<open>training/train.py\<close>\<close>

text \<open>
  The training driver is a Python script. Its integers are unbounded (\<^typ>\<open>int\<close>), its
  strings are modelled as ASCII text (\<^typ>\<open>string\<close>), and its floats are IEEE binary64
  numbers. A finite binary64 number is a rational, so a float is a \<^typ>\<open>rat\<close> that lies
  on the binary64 grid, or one of the three special values.
\<close>

datatype pyfloat = Finite rat | PosInf | NegInf | NaN

text \<open>Truthiness of \<^verbatim>\<open>train_loss\<close>, which is a float or \<^verbatim>\<open>None\<close>:
  \<^verbatim>\<open>None\<close>, \<^verbatim>\<open>0.0\<close> and \<^verbatim>\<open>-0.0\<close> are false, everything else (also NaN) is true.\<close>

definition truthy_float :: "pyfloat option \<Rightarrow> bool" where
  "truthy_float v = (case v of None \<Rightarrow> False | Some f \<Rightarrow> f \<noteq> Finite 0)"

text \<open>Truthiness of a string or \<^verbatim>\<open>None\<close>.\<close>

definition truthy_str :: "string option \<Rightarrow> bool" where
  "truthy_str v = (case v of None \<Rightarrow> False | Some s \<Rightarrow> s \<noteq> [])"

subsection \<open>Binary64 arithmetic\<close>

text \<open>
  \<open>bit_length n\<close> is \<^verbatim>\<open>n.bit_length()\<close> for \<open>n \<ge> 0\<close>. \<open>ilog2 x\<close> is the binary exponent
  \<open>\<lfloor>log\<^sub>2 x\<rfloor>\<close> of a positive rational, computed from the bit lengths of numerator and
  denominator. \<open>round53\<close> rounds a rational to 53 significant bits, ties to even: the
  rounding of every binary64 operation whose result is in the normal range. Results that
  leave the range are handled where the operations are used.
\<close>

function bit_length :: "int \<Rightarrow> nat" where
  "bit_length n = (if n \<le> 0 then 0 else Suc (bit_length (n div 2)))"
  by pat_completeness auto
termination
  by (relation "measure nat") auto

declare bit_length.simps [simp del]

definition ilog2 :: "rat \<Rightarrow> int" where
  "ilog2 x = (case quotient_of x of (p, q) \<Rightarrow>
     let k = int (bit_length p) - int (bit_length q)
     in if 2 powi k \<le> x then k else k - 1)"

definition round_half_even :: "rat \<Rightarrow> int" where
  "round_half_even t = (let f = \<lfloor>t\<rfloor>; d = t - of_int f
     in if d < 1 / 2 then f else if 1 / 2 < d then f + 1 else if even f then f else f + 1)"

definition round53 :: "rat \<Rightarrow> rat" where
  "round53 x = (if x = 0 then 0 else
     let e = ilog2 \<bar>x\<bar> - 52
     in sgn x * of_int (round_half_even (\<bar>x\<bar> / 2 powi e)) * 2 powi e)"

text \<open>\<^verbatim>\<open>int(x)\<close> of a finite float truncates toward zero.\<close>

definition trunc :: "rat \<Rightarrow> int" where
  "trunc x = (if 0 \<le> x then \<lfloor>x\<rfloor> else \<lceil>x\<rceil>)"

text \<open>The float literal \<^verbatim>\<open>0.9\<close> is the binary64 number \<open>8106479329266893 / 2\<^sup>5\<^sup>3\<close>.\<close>

definition double_0_9 :: rat where
  "double_0_9 = 8106479329266893 / 2 ^ 53"

text \<open>\<^verbatim>\<open>int(n * 0.9)\<close> for a list length \<open>n\<close>: the integer is converted to a float,
  multiplied by the literal, and the product is truncated.\<close>

definition int_times_0_9 :: "nat \<Rightarrow> int" where
  "int_times_0_9 n = trunc (round53 (round53 (of_nat n) * double_0_9))"

text \<open>
  Errors raised while one progress line is parsed; all of them are caught by the
  \<^verbatim>\<open>except Exception: pass\<close> of the read loop.
\<close>

datatype parse_error = IndexError | ValueError | ZeroDivisionError | OverflowError

text \<open>Finite binary64 numbers are smaller in magnitude than \<open>2\<^sup>1\<^sup>0\<^sup>2\<^sup>4\<close>; a result that rounds to
  this bound or beyond has left the range.\<close>

definition double_limit :: rat where
  "double_limit = 2 powi 1024"

text \<open>
  \<^verbatim>\<open>a / b\<close> on integers is the correctly rounded quotient; it raises ZeroDivisionError
  for \<open>b = 0\<close> and OverflowError when the rounded quotient is beyond the binary64 range.
  Quotients below the normal range are kept at 53 bits here; the script only consumes
  \<^verbatim>\<open>int(q * 65)\<close>, which is 0 for such a quotient under either rounding.
\<close>

definition true_div :: "int \<Rightarrow> int \<Rightarrow> parse_error + rat" where
  "true_div a b =
     (if b = 0 then Inl ZeroDivisionError
      else let q = round53 (of_int a / of_int b)
           in if double_limit \<le> \<bar>q\<bar> then Inl OverflowError else Inr q)"

text \<open>\<^verbatim>\<open>int(q * 65)\<close>: the product overflows to infinity beyond the binary64 range, and
  \<^verbatim>\<open>int\<close> of an infinity raises OverflowError.\<close>

definition int_times_65 :: "rat \<Rightarrow> parse_error + int" where
  "int_times_65 q =
     (let y = round53 (q * 65)
      in if double_limit \<le> \<bar>y\<bar> then Inl OverflowError else Inr (trunc y))"

subsection \<open>String operations\<close>

text \<open>ASCII characters for which \<^verbatim>\<open>str.isspace\<close> holds.\<close>

definition is_space :: "char \<Rightarrow> bool" where
  "is_space c = (c \<in> set [CHR 0x09, CHR 0x0A, CHR 0x0B, CHR 0x0C, CHR 0x0D,
                           CHR 0x1C, CHR 0x1D, CHR 0x1E, CHR 0x1F, CHR 0x20])"

text \<open>\<^verbatim>\<open>s.strip()\<close>\<close>

definition strip :: "string \<Rightarrow> string" where
  "strip s = rev (dropWhile is_space (rev (dropWhile is_space s)))"

text \<open>\<^verbatim>\<open>sub in s\<close>\<close>

fun str_in :: "string \<Rightarrow> string \<Rightarrow> bool" where
  "str_in sub [] = (sub = [])"
| "str_in sub (c # cs) = (prefix sub (c # cs) \<or> str_in sub cs)"

text \<open>\<^verbatim>\<open>s.split(sep)\<close> for a non-empty separator: the pieces between the successive
  non-overlapping occurrences of \<open>sep\<close>, scanning from the left. The first argument
  collects the current piece in reverse.\<close>

function split_from :: "string \<Rightarrow> string \<Rightarrow> string \<Rightarrow> string list" where
  "split_from acc sep [] = [rev acc]"
| "split_from acc sep (c # cs) =
     (if sep \<noteq> [] \<and> prefix sep (c # cs)
      then rev acc # split_from [] sep (drop (length sep - 1) cs)
      else split_from (c # acc) sep cs)"
  by pat_completeness auto
termination
  by (relation "measure (\<lambda>(acc, sep, s). length s)") auto

definition split :: "string \<Rightarrow> string \<Rightarrow> string list" where
  "split sep s = split_from [] sep s"

text \<open>\<^verbatim>\<open>s.split()\<close>: the maximal runs of non-whitespace characters.\<close>

fun words_from :: "string \<Rightarrow> string \<Rightarrow> string list" where
  "words_from acc [] = (if acc = [] then [] else [rev acc])"
| "words_from acc (c # cs) =
     (if is_space c
      then (if acc = [] then words_from [] cs else rev acc # words_from [] cs)
      else words_from (c # acc) cs)"

definition split_ws :: "string \<Rightarrow> string list" where
  "split_ws s = words_from [] s"

text \<open>\<^verbatim>\<open>xs[i]\<close> for a non-negative constant index; \<open>None\<close> stands for IndexError.\<close>

definition index :: "'a list \<Rightarrow> nat \<Rightarrow> 'a option" where
  "index xs i = (if i < length xs then Some (xs ! i) else None)"

text \<open>\<^verbatim>\<open>str(n)\<close> for an integer.\<close>

fun str_nat :: "nat \<Rightarrow> string" where
  "str_nat n = (if n < 10 then [''0123456789'' ! n]
                else str_nat (n div 10) @ [''0123456789'' ! (n mod 10)])"

definition str_int :: "int \<Rightarrow> string" where
  "str_int i = (if i < 0 then CHR ''-'' # str_nat (nat (- i)) else str_nat (nat i))"

text \<open>\<^verbatim>\<open>d.get(key, default)\<close>, applied to the entry found under the key.\<close>

definition dict_get :: "'a option \<Rightarrow> 'a \<Rightarrow> 'a" where
  "dict_get entry dflt = (case entry of None \<Rightarrow> dflt | Some v \<Rightarrow> v)"

text \<open>\<^verbatim>\<open>xs[-n:]\<close>: the last \<open>n\<close> elements, or all of them when there are fewer.\<close>

definition last_n :: "nat \<Rightarrow> 'a list \<Rightarrow> 'a list" where
  "last_n n xs = drop (length xs - n) xs"

text \<open>
  Exceptions that leave a step of the pipeline. \<open>Exception s\<close> is an exception object
  whose \<^verbatim>\<open>str()\<close> is \<open>s\<close>, of any class derived from \<^verbatim>\<open>Exception\<close>; \<open>TypeError\<close> is
  the one the script itself can provoke, by multiplying with an epoch count of \<^verbatim>\<open>None\<close>.
\<close>

datatype exn = TypeError | Exception string

definition str_exn :: "exn \<Rightarrow> string" where
  "str_exn e = (case e of
      TypeError \<Rightarrow> ''unsupported operand type(s) for *: '' @ [CHR 0x27] @ ''int'' @ [CHR 0x27]
                   @ '' and '' @ [CHR 0x27] @ ''NoneType'' @ [CHR 0x27]
    | Exception s \<Rightarrow> s)"

text \<open>
  The builtins \<^verbatim>\<open>int\<close>, \<^verbatim>\<open>float\<close> and \<^verbatim>\<open>json.loads\<close> are parameters. \<open>None\<close> stands for
  the ValueError of \<^verbatim>\<open>int\<close> and \<^verbatim>\<open>float\<close>. A parsed dataset record is the list found
  under its \<^verbatim>\<open>messages\<close> key (\<open>None\<close> when the key is absent); a message is a dictionary
  from keys to strings.
\<close>

type_synonym message = "string \<rightharpoonup> string"

record pylib =
  int_of_str :: "string \<Rightarrow> int option"
  float_of_str :: "string \<Rightarrow> pyfloat option"
  json_loads :: "string \<Rightarrow> exn + message list option"

section \<open>Dataset transformer: \<^verbatim>\<open>convert_jsonl_to_mlx_format\<close>\<close>

datatype example = Example (example_text: string)

definition nl :: string where
  "nl = [CHR 0x0A]"

definition format_message :: "message \<Rightarrow> string" where
  "format_message msg =
     (let role = dict_get (msg ''role'') ''user'';
          content = dict_get (msg ''content'') []
      in if role = ''system'' then ''<|system|>'' @ nl @ content @ nl
         else if role = ''user'' then ''<|user|>'' @ nl @ content @ nl
         else if role = ''assistant'' then ''<|assistant|>'' @ nl @ content @ nl
         else [])"

definition format_example :: "message list option \<Rightarrow> example" where
  "format_example data = Example (concat (map format_message (dict_get data [])))"

text \<open>The read loop over the lines of the input file; the second argument is the list
  \<^verbatim>\<open>examples\<close> built so far. A line that \<^verbatim>\<open>json.loads\<close> rejects ends the function.\<close>

fun read_examples :: "pylib \<Rightarrow> example list \<Rightarrow> string list \<Rightarrow> exn + example list" where
  "read_examples lib examples [] = Inr examples"
| "read_examples lib examples (line # rest) =
     (if strip line \<noteq> []
      then (case json_loads lib line of
              Inl e \<Rightarrow> Inl e
            | Inr data \<Rightarrow> read_examples lib (examples @ [format_example data]) rest)
      else read_examples lib examples rest)"

record dataset_files =
  train_jsonl :: "example list"
  valid_jsonl :: "example list"

text \<open>The input is what opening the dataset file yields: its lines, or the exception of
  \<^verbatim>\<open>open\<close>. The result is the pair of files written and the returned count.\<close>

definition convert_jsonl_to_mlx_format ::
    "pylib \<Rightarrow> exn + string list \<Rightarrow> exn + dataset_files \<times> nat" where
  "convert_jsonl_to_mlx_format lib input =
     (case input of
        Inl e \<Rightarrow> Inl e
      | Inr lines \<Rightarrow>
          (case read_examples lib [] lines of
             Inl e \<Rightarrow> Inl e
           | Inr examples \<Rightarrow>
               let split_idx = max 1 (int_times_0_9 (length examples));
                   train_data = take (nat split_idx) examples;
                   valid_data = (if split_idx < int (length examples)
                                 then drop (nat split_idx) examples
                                 else last_n 1 examples)
               in Inr (\<lparr>train_jsonl = train_data, valid_jsonl = valid_data\<rparr>,
                       length examples)))"

section \<open>Command line and configuration file\<close>

text \<open>
  The namespace that \<^verbatim>\<open>argparse\<close> returns. An option that was not given is \<^verbatim>\<open>None\<close>;
  \<^verbatim>\<open>--epochs\<close> is an integer with default 3 and \<^verbatim>\<open>--resume\<close> a flag, so the command line
  always sets them, but a configuration file can replace them by \<^verbatim>\<open>null\<close>. The field
  \<open>output_name\<close> is \<^verbatim>\<open>args.output\<close>.
\<close>

record args =
  base_model :: "string option"
  dataset :: "string option"
  output_name :: "string option"
  epochs :: "int option"
  progress_file :: "string option"
  output_dir :: "string option"
  resume :: "bool option"
  config :: "string option"

text \<open>
  The JSON object of the configuration file, by key. The outer \<open>None\<close> says that the key
  is absent, \<open>Some None\<close> that its value is \<^verbatim>\<open>null\<close>. Values are taken to have the type
  the script expects of them.
\<close>

record config_file =
  json_baseModel :: "string option option"
  json_dataset :: "string option option"
  json_output :: "string option option"
  json_epochs :: "int option option"
  json_progressFile :: "string option option"
  json_outputDir :: "string option option"
  json_resume :: "bool option option"

text \<open>Lines 101 to 107: \<^verbatim>\<open>args.x = config.get(key, args.x)\<close> for each key.\<close>

definition apply_config :: "config_file \<Rightarrow> args \<Rightarrow> args" where
  "apply_config cfg a =
     a\<lparr>base_model := dict_get (json_baseModel cfg) (base_model a),
       dataset := dict_get (json_dataset cfg) (dataset a),
       output_name := dict_get (json_output cfg) (output_name a),
       epochs := dict_get (json_epochs cfg) (epochs a),
       progress_file := dict_get (json_progressFile cfg) (progress_file a),
       output_dir := dict_get (json_outputDir cfg) (output_dir a),
       resume := dict_get (json_resume cfg) (resume a)\<rparr>"

text \<open>Line 110: \<^verbatim>\<open>all([...])\<close> over the five required arguments.\<close>

definition required_present :: "args \<Rightarrow> bool" where
  "required_present a =
     (truthy_str (base_model a) \<and> truthy_str (dataset a) \<and> truthy_str (output_name a)
      \<and> truthy_str (progress_file a) \<and> truthy_str (output_dir a))"

text \<open>The arguments of a run that has passed validation.\<close>

record run_config =
  rc_base_model :: string
  rc_dataset :: string
  rc_output :: string
  rc_epochs :: "int option"
  rc_progress_file :: string
  rc_output_dir :: string
  rc_resume :: bool

definition validated :: "args \<Rightarrow> run_config option" where
  "validated a =
     (if required_present a then
        (case (base_model a, dataset a, output_name a, progress_file a, output_dir a) of
           (Some b, Some d, Some out, Some pf, Some od) \<Rightarrow>
             Some \<lparr>rc_base_model = b, rc_dataset = d, rc_output = out, rc_epochs = epochs a,
                   rc_progress_file = pf, rc_output_dir = od, rc_resume = (resume a = Some True)\<rparr>
         | _ \<Rightarrow> None)
      else None)"

section \<open>Files written and processes started\<close>

datatype stage =
    Initializing | Installing | Loading_model | Preparing_data | Resuming | Starting_training
  | Applying_lora | Training | Fusing_model | Converting_gguf | Importing_ollama | Completed
  | Failed

text \<open>One entry of the loss history, \<^verbatim>\<open>{'step': ..., 'loss': ..., 'epoch': ...}\<close>.\<close>

datatype entry = Entry (entry_step: int) (entry_loss: pyfloat) (entry_epoch: int)

text \<open>File system paths stay symbolic: \<open>Sub p name\<close> is \<^verbatim>\<open>p / name\<close>.\<close>

datatype path = Path string | Sub path string

text \<open>
  The dictionary passed to \<^verbatim>\<open>write_progress\<close>. The first seven keys are in every
  snapshot; a key that a snapshot does not have is \<open>None\<close>. \<open>p_final_loss\<close> is
  \<open>Some None\<close> when the key is present with value \<^verbatim>\<open>None\<close>. \<open>p_error\<close> stands for the
  error text, which the script builds from the exception and its traceback.
\<close>

record snapshot =
  p_stage :: stage
  p_progress :: int
  p_message :: string
  p_epoch :: int
  p_total_epochs :: "int option"
  p_loss :: "pyfloat option"
  p_learning_rate :: "pyfloat option"
  p_dataset_size :: "nat option"
  p_step :: "int option"
  p_total_steps :: "int option"
  p_loss_history :: "entry list option"
  p_error :: "exn option"
  p_final_loss :: "pyfloat option option"
  p_model_path :: "path option"
  p_ollama_model :: "string option"

text \<open>The JSON object of \<^verbatim>\<open>checkpoint.json\<close>, by key; \<open>None\<close> for a key that is absent.\<close>

record checkpoint =
  c_last_iter :: "int option"
  c_last_loss :: "pyfloat option"
  c_epoch :: "int option"
  c_loss_history :: "entry list option"
  c_total_iters :: "int option"
  c_dataset_size :: "nat option"

text \<open>Truthiness of the loaded checkpoint: an object with at least one key.\<close>

definition truthy_checkpoint :: "checkpoint \<Rightarrow> bool" where
  "truthy_checkpoint c =
     (c_last_iter c \<noteq> None \<or> c_last_loss c \<noteq> None \<or> c_epoch c \<noteq> None
      \<or> c_loss_history c \<noteq> None \<or> c_total_iters c \<noteq> None \<or> c_dataset_size c \<noteq> None)"

text \<open>The external commands, with the arguments that vary.\<close>

datatype command =
    Pip_install_mlx
  | Lora_train string path int path "path option"
  | Fuse string path path
  | Convert_hf_to_gguf path path
  | Ollama_create string path

text \<open>What a run does to the outside, in order.\<close>

datatype event =
    Write_progress snapshot
  | Save_checkpoint checkpoint
  | Write_dataset path dataset_files
  | Write_modelfile path path
  | Subprocess command

text \<open>The progress snapshots among the events, in order.\<close>

fun snapshots :: "event list \<Rightarrow> snapshot list" where
  "snapshots [] = []"
| "snapshots (Write_progress s # evs) = s # snapshots evs"
| "snapshots (_ # evs) = snapshots evs"

text \<open>The checkpoints among the events, in order.\<close>

fun checkpoints :: "event list \<Rightarrow> checkpoint list" where
  "checkpoints [] = []"
| "checkpoints (Save_checkpoint c # evs) = c # checkpoints evs"
| "checkpoints (_ # evs) = checkpoints evs"

text \<open>The float literal \<^verbatim>\<open>1e-5\<close>.\<close>

definition double_1e_5 :: pyfloat where
  "double_1e_5 = Finite (round53 (1 / 100000))"

text \<open>The seven keys that every snapshot has, with \<^verbatim>\<open>loss\<close> and \<^verbatim>\<open>learning_rate\<close>
  \<^verbatim>\<open>None\<close>.\<close>

definition snapshot_of :: "stage \<Rightarrow> int \<Rightarrow> string \<Rightarrow> int \<Rightarrow> int option \<Rightarrow> snapshot" where
  "snapshot_of st pr msg ep tot =
     \<lparr>p_stage = st, p_progress = pr, p_message = msg, p_epoch = ep, p_total_epochs = tot,
      p_loss = None, p_learning_rate = None, p_dataset_size = None, p_step = None,
      p_total_steps = None, p_loss_history = None, p_error = None, p_final_loss = None,
      p_model_path = None, p_ollama_model = None\<rparr>"

section \<open>Model names\<close>

definition model_mapping :: "(string \<times> string) list" where
  "model_mapping =
     [(''llama3.2:3b'', ''mlx-community/Llama-3.2-3B-Instruct-4bit''),
      (''llama3.2:1b'', ''mlx-community/Llama-3.2-1B-Instruct-4bit''),
      (''llama3.1:8b'', ''mlx-community/Meta-Llama-3.1-8B-Instruct-4bit''),
      (''mistral:7b'', ''mlx-community/Mistral-7B-Instruct-v0.3-4bit''),
      (''qwen2.5:3b'', ''mlx-community/Qwen2.5-3B-Instruct-4bit''),
      (''qwen2.5:7b'', ''mlx-community/Qwen2.5-7B-Instruct-4bit'')]"

definition custom_model_bases :: "(string \<times> string) list" where
  "custom_model_bases =
     [(''luddo-expert'', ''llama3.2:3b''),
      (''luddo-expert:latest'', ''llama3.2:3b''),
      (''llama3.2-luddo-finetuned'', ''llama3.2:3b'')]"

definition to_lower :: "char \<Rightarrow> char" where
  "to_lower c = dict_get (map_of (zip ''ABCDEFGHIJKLMNOPQRSTUVWXYZ'' ''abcdefghijklmnopqrstuvwxyz'') c) c"

definition to_upper :: "char \<Rightarrow> char" where
  "to_upper c = dict_get (map_of (zip ''abcdefghijklmnopqrstuvwxyz'' ''ABCDEFGHIJKLMNOPQRSTUVWXYZ'') c) c"

text \<open>\<^verbatim>\<open>s.title()\<close> on ASCII text; the flag says that the previous character is a letter.\<close>

fun title_from :: "bool \<Rightarrow> string \<Rightarrow> string" where
  "title_from prev [] = []"
| "title_from prev (c # cs) =
     (if to_upper c \<noteq> c then (if prev then c else to_upper c) # title_from True cs
      else if to_lower c \<noteq> c then (if prev then to_lower c else c) # title_from True cs
      else c # title_from False cs)"

text \<open>Lines 171 to 188: the model identifier handed to the fine-tuning library.\<close>

definition resolve_hf_model :: "string \<Rightarrow> string" where
  "resolve_hf_model base =
     (let resolved_model = dict_get (map_of custom_model_bases base) base
      in case map_of model_mapping resolved_model of
           Some hf_model \<Rightarrow> hf_model
         | None \<Rightarrow>
             let base_lower = map to_lower base
             in if str_in ''luddo'' base_lower \<or> str_in ''expert'' base_lower
                   \<or> str_in ''finetuned'' base_lower
                then dict_get (map_of model_mapping ''llama3.2:3b'') []
                else ''mlx-community/''
                     @ title_from False (map (\<lambda>c. if c = CHR '':'' then CHR ''-'' else c) resolved_model)
                     @ ''-4bit'')"

section \<open>The read loop over the output of the training process\<close>

text \<open>The variables of \<^verbatim>\<open>main\<close> that the loop reads; \<open>n_epochs\<close> is \<^verbatim>\<open>args.epochs\<close>.\<close>

record loop_ctx =
  resume_from_iter :: int
  n_epochs :: int
  iters_per_epoch :: int
  total_iters :: int
  dataset_size :: nat

text \<open>The variables that the loop assigns.\<close>

record loop_state =
  current_iter :: int
  current_epoch :: int
  loss_history :: "entry list"

text \<open>Line 425: \<^verbatim>\<open>30 + int((current_iter / total_iters) * 65)\<close>\<close>

definition progress_value :: "int \<Rightarrow> int \<Rightarrow> parse_error + int" where
  "progress_value cur tot =
     (case true_div cur tot of
        Inl err \<Rightarrow> Inl err
      | Inr q \<Rightarrow> (case int_times_65 q of Inl err \<Rightarrow> Inl err | Inr k \<Rightarrow> Inr (30 + k)))"

text \<open>Lines 433 to 445.\<close>

definition training_snapshot :: "loop_ctx \<Rightarrow> loop_state \<Rightarrow> int \<Rightarrow> pyfloat \<Rightarrow> snapshot" where
  "training_snapshot ctx st progress train_loss =
     (snapshot_of Training (min progress 95)
        (''Training epoch '' @ str_int (current_epoch st) @ ''/'' @ str_int (n_epochs ctx))
        (current_epoch st) (Some (n_epochs ctx)))
     \<lparr>p_loss := Some train_loss, p_learning_rate := Some double_1e_5,
      p_dataset_size := Some (dataset_size ctx), p_step := Some (current_iter st),
      p_total_steps := Some (total_iters ctx),
      p_loss_history := Some (last_n 50 (loss_history st))\<rparr>"

text \<open>Lines 449 to 456.\<close>

definition training_checkpoint :: "loop_ctx \<Rightarrow> loop_state \<Rightarrow> pyfloat \<Rightarrow> checkpoint" where
  "training_checkpoint ctx st train_loss =
     \<lparr>c_last_iter = Some (current_iter st), c_last_loss = Some train_loss,
      c_epoch = Some (current_epoch st), c_loss_history = Some (last_n 100 (loss_history st)),
      c_total_iters = Some (total_iters ctx), c_dataset_size = Some (dataset_size ctx)\<rparr>"

text \<open>
  The body of the \<^verbatim>\<open>try\<close> statement is modelled in parts. It returns the error that
  ended it, if any, together with the variables as they are at that moment and the files
  written. Lines 417 to 421 give the loss, \<open>None\<close> when the first segment has no loss
  marker.
\<close>

definition parse_loss :: "pylib \<Rightarrow> string \<Rightarrow> parse_error + pyfloat option" where
  "parse_loss lib iter_loss_part =
     (if str_in ''Train loss'' iter_loss_part then
        (case index (split ''Train loss'' iter_loss_part) 1 of
           None \<Rightarrow> Inl IndexError
         | Some piece \<Rightarrow>
             (case float_of_str lib (strip piece) of
                None \<Rightarrow> Inl ValueError
              | Some f \<Rightarrow> Inr (Some f)))
      else Inr None)"

text \<open>Lines 433 to 456: the files written for one recorded line.\<close>

definition progress_events :: "loop_ctx \<Rightarrow> loop_state \<Rightarrow> int \<Rightarrow> pyfloat \<Rightarrow> event list" where
  "progress_events ctx st progress train_loss =
     Write_progress (training_snapshot ctx st progress train_loss)
     # (if current_iter st mod 100 = 0
        then [Save_checkpoint (training_checkpoint ctx st train_loss)] else [])"

text \<open>Lines 424 to 456, the body of \<^verbatim>\<open>if train_loss:\<close>.\<close>

definition record_progress ::
    "loop_ctx \<Rightarrow> loop_state \<Rightarrow> pyfloat \<Rightarrow> parse_error option \<times> loop_state \<times> event list" where
  "record_progress ctx st train_loss =
     (let st1 = st\<lparr>current_epoch :=
                   min (n_epochs ctx) (current_iter st div iters_per_epoch ctx + 1)\<rparr>
      in case progress_value (current_iter st1) (total_iters ctx) of
           Inl err \<Rightarrow> (Some err, st1, [])
         | Inr progress \<Rightarrow>
             let st2 = st1\<lparr>loss_history := loss_history st1
                            @ [Entry (current_iter st1) train_loss (current_epoch st1)]\<rparr>
             in (None, st2, progress_events ctx st2 progress train_loss))"

text \<open>Lines 407 to 412: the first segment of the line and the iteration number in it.\<close>

definition parse_iter :: "pylib \<Rightarrow> string \<Rightarrow> parse_error + string \<times> int" where
  "parse_iter lib line =
     (case index (split '','' line) 0 of
        None \<Rightarrow> Inl IndexError
      | Some iter_loss_part \<Rightarrow>
     (case index (split '':'' iter_loss_part) 0 of
        None \<Rightarrow> Inl IndexError
      | Some iter_match \<Rightarrow>
     (case index (split_ws iter_match) 1 of
        None \<Rightarrow> Inl IndexError
      | Some number \<Rightarrow>
     (case int_of_str lib number of
        None \<Rightarrow> Inl ValueError
      | Some relative_iter \<Rightarrow> Inr (iter_loss_part, relative_iter)))))"

text \<open>Lines 406 to 456, the whole body of the \<^verbatim>\<open>try\<close> statement.\<close>

definition try_body ::
    "pylib \<Rightarrow> loop_ctx \<Rightarrow> loop_state \<Rightarrow> string \<Rightarrow> parse_error option \<times> loop_state \<times> event list" where
  "try_body lib ctx st line =
     (case parse_iter lib line of
        Inl err \<Rightarrow> (Some err, st, [])
      | Inr (iter_loss_part, relative_iter) \<Rightarrow>
          let st1 = st\<lparr>current_iter := resume_from_iter ctx + relative_iter\<rparr>
          in (case parse_loss lib iter_loss_part of
                Inl err \<Rightarrow> (Some err, st1, [])
              | Inr train_loss \<Rightarrow>
                  (case train_loss of
                     None \<Rightarrow> (None, st1, [])
                   | Some l \<Rightarrow>
                       if truthy_float train_loss then record_progress ctx st1 l
                       else (None, st1, []))))"

text \<open>Lines 404 to 458: one pass of the loop. \<^verbatim>\<open>except Exception: pass\<close> drops the error
  and keeps the variables.\<close>

definition handle_line ::
    "pylib \<Rightarrow> loop_ctx \<Rightarrow> loop_state \<Rightarrow> string \<Rightarrow> loop_state \<times> event list" where
  "handle_line lib ctx st line =
     (if str_in ''Iter'' line \<and> str_in ''Train loss'' line
      then (case try_body lib ctx st line of (_, st', evs) \<Rightarrow> (st', evs))
      else (st, []))"

text \<open>Lines 400 to 458: the loop over the lines of the process output.\<close>

fun training_loop ::
    "pylib \<Rightarrow> loop_ctx \<Rightarrow> loop_state \<Rightarrow> string list \<Rightarrow> loop_state \<times> event list" where
  "training_loop lib ctx st [] = (st, [])"
| "training_loop lib ctx st (line # rest) =
     (case handle_line lib ctx st line of
        (st', evs) \<Rightarrow>
          (case training_loop lib ctx st' rest of (st'', evs') \<Rightarrow> (st'', evs @ evs')))"

section \<open>The pipeline: \<^verbatim>\<open>main\<close>\<close>

text \<open>
  What the environment answers during a run, one field for each interaction whose outcome
  the script looks at. An \<open>exn option\<close> is \<open>None\<close> when the call returns normally.
  Writing the files of the run itself is taken to succeed.
\<close>

datatype direct_setup = Tuner_import_fails | Model_load_fails | Model_loaded

record env =
  config_json :: "exn + config_file"
  mlx_installed :: bool
  pip_install :: "exn option"
  import_mlx_lm :: "exn option"
  checkpoint_json :: "exn + checkpoint option"
  dataset_lines :: "exn + string list"
  direct_setup :: direct_setup
  adapter_path_exists :: bool
  lora_process :: "string list \<times> int"
  fuse_process :: "exn option"
  gguf_prepare :: "exn option"
  convert_script_exists :: bool
  convert_process :: "exn + int"
  gguf_file_exists :: bool
  ollama_process :: "exn + int"

text \<open>
  \<open>config_json\<close>: \<^verbatim>\<open>json.load\<close> of the file named by \<^verbatim>\<open>--config\<close>.
  \<open>mlx_installed\<close>: the result of \<^verbatim>\<open>check_mlx_installed\<close>.
  \<open>pip_install\<close>: \<^verbatim>\<open>install_mlx\<close>, which raises when pip fails.
  \<open>import_mlx_lm\<close>: the imports of lines 140 and 141.
  \<open>checkpoint_json\<close>: \<^verbatim>\<open>load_checkpoint\<close>; \<open>Inr None\<close> when the file does not exist.
  \<open>dataset_lines\<close>: opening and reading the dataset file.
  \<open>direct_setup\<close>: how far the \<^verbatim>\<open>try\<close> statement of lines 269 to 351 gets.
  \<open>adapter_path_exists\<close>: \<^verbatim>\<open>os.path.exists(adapter_path)\<close>.
  \<open>lora_process\<close>: the output lines and the exit code of the training process.
  \<open>fuse_process\<close>: the fuse command, run with \<^verbatim>\<open>check=True\<close>.
  \<open>gguf_prepare\<close>: lines 505 to 515, loading the fused model and saving it as one file.
  \<open>convert_script_exists\<close>, \<open>convert_process\<close>: the conversion script and its exit code.
  \<open>gguf_file_exists\<close>: \<^verbatim>\<open>os.path.exists(gguf_path)\<close>.
  \<open>ollama_process\<close>: the exit code of \<^verbatim>\<open>ollama create\<close>, or the exception of starting it.
\<close>

text \<open>
  A step of the pipeline yields the events it caused and either the exception that ended
  it or its result.
\<close>

type_synonym 'a io = "event list \<times> (exn + 'a)"

definition return :: "'a \<Rightarrow> 'a io" where
  "return x = ([], Inr x)"

definition raise :: "exn \<Rightarrow> 'a io" where
  "raise e = ([], Inl e)"

definition emit :: "event \<Rightarrow> unit io" where
  "emit ev = ([ev], Inr ())"

definition bind_io :: "'a io \<Rightarrow> ('a \<Rightarrow> 'b io) \<Rightarrow> 'b io" where
  "bind_io m f =
     (case m of
        (evs, Inl e) \<Rightarrow> (evs, Inl e)
      | (evs, Inr x) \<Rightarrow> (case f x of (evs', r) \<Rightarrow> (evs @ evs', r)))"

definition then_io :: "unit io \<Rightarrow> 'b io \<Rightarrow> 'b io" where
  "then_io m k = bind_io m (\<lambda>_. k)"

definition check :: "exn option \<Rightarrow> unit io" where
  "check r = (case r of None \<Rightarrow> return () | Some e \<Rightarrow> raise e)"

definition result_of :: "exn + 'a \<Rightarrow> 'a io" where
  "result_of r = (case r of Inl e \<Rightarrow> raise e | Inr x \<Rightarrow> return x)"

definition write_progress :: "snapshot \<Rightarrow> unit io" where
  "write_progress s = emit (Write_progress s)"

text \<open>Lines 201 to 206, 229, 478, 501, 502 and 572.\<close>

definition output_path :: "run_config \<Rightarrow> path" where
  "output_path rc = Sub (Path (rc_output_dir rc)) (rc_output rc)"

definition checkpoint_file :: "run_config \<Rightarrow> path" where
  "checkpoint_file rc = Sub (output_path rc) ''checkpoint.json''"

definition adapter_path :: "run_config \<Rightarrow> path" where
  "adapter_path rc = Sub (output_path rc) ''adapters''"

definition data_dir :: "run_config \<Rightarrow> path" where
  "data_dir rc = Sub (output_path rc) ''data''"

definition fused_path :: "run_config \<Rightarrow> path" where
  "fused_path rc = Sub (output_path rc) ''fused''"

definition single_path :: "run_config \<Rightarrow> path" where
  "single_path rc = Sub (output_path rc) ''fused-single''"

definition gguf_path :: "run_config \<Rightarrow> path" where
  "gguf_path rc = Sub (output_path rc) (rc_output rc @ ''.gguf'')"

definition modelfile_path :: "run_config \<Rightarrow> path" where
  "modelfile_path rc = Sub (output_path rc) ''Modelfile''"

text \<open>Lines 116 to 198: dependencies and model name. Yields \<^verbatim>\<open>hf_model\<close>.\<close>

definition setup_phase :: "env \<Rightarrow> run_config \<Rightarrow> string io" where
  "setup_phase env rc =
     then_io (write_progress
                (snapshot_of Initializing 0 ''Checking dependencies...'' 0 (rc_epochs rc)))
    (then_io (if mlx_installed env then return ()
              else then_io (write_progress
                              (snapshot_of Installing 2 ''Installing MLX-LM...'' 0 (rc_epochs rc)))
                  (then_io (emit (Subprocess Pip_install_mlx))
                           (check (pip_install env))))
    (then_io (check (import_mlx_lm env))
    (then_io (write_progress
                (snapshot_of Loading_model 5
                   (''Setting up for model: '' @ rc_base_model rc @ ''...'') 0 (rc_epochs rc)))
    (then_io (write_progress
                (snapshot_of Preparing_data 10 ''Preparing training data...'' 0 (rc_epochs rc)))
             (return (resolve_hf_model (rc_base_model rc)))))))"

text \<open>Lines 217 to 226.\<close>

definition resuming_snapshot :: "run_config \<Rightarrow> checkpoint \<Rightarrow> snapshot" where
  "resuming_snapshot rc c =
     (snapshot_of Resuming 5
        (''Resuming training from iteration '' @ str_int (dict_get (c_last_iter c) 0) @ ''...'')
        (dict_get (c_epoch c) 1) (rc_epochs rc))
     \<lparr>p_loss := c_last_loss c, p_learning_rate := Some double_1e_5,
      p_loss_history := Some (last_n 50 (dict_get (c_loss_history c) []))\<rparr>"

text \<open>Lines 208 to 226: the resume check. Yields \<^verbatim>\<open>resume_from_iter\<close>; the loss history
  read here is assigned anew in line 265 before it is used again.\<close>

definition resume_phase :: "env \<Rightarrow> run_config \<Rightarrow> int io" where
  "resume_phase env rc =
     (if rc_resume rc then
        bind_io (result_of (checkpoint_json env)) (\<lambda>loaded.
          case loaded of
            None \<Rightarrow> return 0
          | Some c \<Rightarrow>
              if truthy_checkpoint c
              then then_io (write_progress (resuming_snapshot rc c))
                           (return (dict_get (c_last_iter c) 0))
              else return 0)
      else return 0)"

text \<open>Lines 228 to 246: the dataset and the iteration counts. Yields the loop constants.\<close>

definition data_phase :: "pylib \<Rightarrow> env \<Rightarrow> run_config \<Rightarrow> int \<Rightarrow> loop_ctx io" where
  "data_phase lib env rc resume_from =
     bind_io (result_of (convert_jsonl_to_mlx_format lib (dataset_lines env))) (\<lambda>(files, dsize).
     then_io (emit (Write_dataset (data_dir rc) files))
    (then_io (write_progress
                ((snapshot_of Starting_training 15
                    (''Starting LoRA training on '' @ str_int (int dsize) @ '' examples...'')
                    0 (rc_epochs rc))
                 \<lparr>p_dataset_size := Some dsize\<rparr>))
       (case rc_epochs rc of
          None \<Rightarrow> raise TypeError
        | Some n \<Rightarrow>
            return \<lparr>resume_from_iter = resume_from, n_epochs = n,
                  iters_per_epoch = max 1 (int dsize div 4),
                  total_iters = max 1 (int dsize div 4) * n,
                  dataset_size = dsize\<rparr>)))"

text \<open>Lines 269 to 351. Nothing of the model loaded here is used afterwards, and the class
  defined here is never instantiated; only the two snapshots remain.\<close>

definition direct_phase :: "env \<Rightarrow> run_config \<Rightarrow> string \<Rightarrow> loop_ctx \<Rightarrow> unit io" where
  "direct_phase env rc hf_model ctx =
     (case direct_setup env of
        Tuner_import_fails \<Rightarrow> return ()
      | Model_load_fails \<Rightarrow>
          write_progress
            ((snapshot_of Loading_model 20 (''Loading '' @ hf_model @ ''...'') 0 (rc_epochs rc))
             \<lparr>p_dataset_size := Some (dataset_size ctx)\<rparr>)
      | Model_loaded \<Rightarrow>
          then_io (write_progress
             ((snapshot_of Loading_model 20 (''Loading '' @ hf_model @ ''...'') 0 (rc_epochs rc))
              \<lparr>p_dataset_size := Some (dataset_size ctx)\<rparr>))
            (write_progress
             ((snapshot_of Applying_lora 25 ''Applying LoRA adapters...'' 0 (rc_epochs rc))
              \<lparr>p_dataset_size := Some (dataset_size ctx)\<rparr>)))"

text \<open>Lines 372 to 388.\<close>

definition lora_command :: "env \<Rightarrow> run_config \<Rightarrow> string \<Rightarrow> loop_ctx \<Rightarrow> command" where
  "lora_command env rc hf_model ctx =
     Lora_train hf_model (data_dir rc) (total_iters ctx - resume_from_iter ctx) (adapter_path rc)
       (if 0 < resume_from_iter ctx \<and> adapter_path_exists env
        then Some (Sub (adapter_path rc) ''adapters.safetensors'') else None)"

text \<open>Lines 265, 266 and 398: the variables of the loop before its first pass. The loss
  history starts empty, also in a resumed run.\<close>

definition initial_state :: "loop_ctx \<Rightarrow> loop_state" where
  "initial_state ctx =
     \<lparr>current_iter = resume_from_iter ctx, current_epoch = 0, loss_history = []\<rparr>"

text \<open>Lines 354 to 363.\<close>

definition training_start_snapshot :: "run_config \<Rightarrow> loop_ctx \<Rightarrow> snapshot" where
  "training_start_snapshot rc ctx =
     (snapshot_of Training 30 ''Training with MLX LoRA...'' 1 (rc_epochs rc))
     \<lparr>p_dataset_size := Some (dataset_size ctx)\<rparr>"

text \<open>Lines 354 to 463: the training phase. Yields the loss history of the run.\<close>

definition training_phase ::
    "pylib \<Rightarrow> env \<Rightarrow> run_config \<Rightarrow> string \<Rightarrow> loop_ctx \<Rightarrow> entry list io" where
  "training_phase lib env rc hf_model ctx =
     then_io (write_progress (training_start_snapshot rc ctx))
       (if total_iters ctx - resume_from_iter ctx \<le> 0 then return []
        else
          then_io (emit (Subprocess (lora_command env rc hf_model ctx)))
            (case training_loop lib ctx (initial_state ctx) (fst (lora_process env)) of
               (st, evs) \<Rightarrow>
                 then_io (evs, Inr ())
                   (if snd (lora_process env) \<noteq> 0
                    then raise (Exception (''Training failed with exit code ''
                                           @ str_int (snd (lora_process env))))
                    else return (loss_history st))))"

text \<open>The snapshots of lines 465, 488 and 541 differ in stage, progress and message only.\<close>

definition post_snapshot ::
    "run_config \<Rightarrow> loop_ctx \<Rightarrow> entry list \<Rightarrow> stage \<Rightarrow> int \<Rightarrow> string \<Rightarrow> snapshot" where
  "post_snapshot rc ctx history st pr msg =
     (snapshot_of st pr msg (n_epochs ctx) (rc_epochs rc))
     \<lparr>p_loss := (if history \<noteq> [] then Some (entry_loss (last history)) else None),
      p_dataset_size := Some (dataset_size ctx),
      p_loss_history := Some history\<rparr>"

text \<open>Lines 504 to 539: the conversion. It never raises; it yields the path of the converted
  model, or \<^verbatim>\<open>None\<close>.\<close>

definition convert_phase :: "env \<Rightarrow> run_config \<Rightarrow> path option io" where
  "convert_phase env rc =
     (case gguf_prepare env of
        Some e \<Rightarrow> return None
      | None \<Rightarrow>
          if convert_script_exists env then
            then_io (emit (Subprocess (Convert_hf_to_gguf (gguf_path rc) (single_path rc))))
              (case convert_process env of
                 Inl e \<Rightarrow> return None
               | Inr code \<Rightarrow> return (if code \<noteq> 0 then None else Some (gguf_path rc)))
          else return None)"

text \<open>Line 554.\<close>

definition model_source :: "env \<Rightarrow> run_config \<Rightarrow> path option \<Rightarrow> path" where
  "model_source env rc converted =
     (case converted of
        Some p \<Rightarrow> if gguf_file_exists env then p else fused_path rc
      | None \<Rightarrow> fused_path rc)"

text \<open>Lines 593 to 606.\<close>

definition completed_snapshot :: "run_config \<Rightarrow> loop_ctx \<Rightarrow> entry list \<Rightarrow> snapshot" where
  "completed_snapshot rc ctx history =
     (post_snapshot rc ctx history Completed 100 (''Training complete! Model: '' @ rc_output rc))
     \<lparr>p_final_loss := Some (if history \<noteq> [] then Some (entry_loss (last history)) else None),
      p_model_path := Some (fused_path rc),
      p_ollama_model := Some (rc_output rc)\<rparr>"

text \<open>Lines 465 to 606: fuse, convert, import.\<close>

definition post_phase ::
    "env \<Rightarrow> run_config \<Rightarrow> string \<Rightarrow> loop_ctx \<Rightarrow> entry list \<Rightarrow> unit io" where
  "post_phase env rc hf_model ctx history =
     then_io (write_progress
                (post_snapshot rc ctx history Fusing_model 96
                   ''Fusing adapters with base model...''))
    (then_io (emit (Subprocess (Fuse hf_model (adapter_path rc) (fused_path rc))))
    (then_io (check (fuse_process env))
    (then_io (write_progress
                (post_snapshot rc ctx history Converting_gguf 97
                   ''Converting model to GGUF format...''))
    (bind_io (convert_phase env rc) (\<lambda>converted.
     then_io (write_progress
                (post_snapshot rc ctx history Importing_ollama 99
                   ''Importing model to Ollama...''))
    (then_io (emit (Write_modelfile (modelfile_path rc) (model_source env rc converted)))
    (then_io (emit (Subprocess (Ollama_create (rc_output rc) (modelfile_path rc))))
    (bind_io (result_of (ollama_process env)) (\<lambda>code.
     write_progress (completed_snapshot rc ctx history))))))))))"

text \<open>Lines 116 to 463: everything up to the end of training. Yields the model name, the
  loop constants and the loss history of the run.\<close>

definition training_part ::
    "pylib \<Rightarrow> env \<Rightarrow> run_config \<Rightarrow> (string \<times> loop_ctx \<times> entry list) io" where
  "training_part lib env rc =
     bind_io (setup_phase env rc) (\<lambda>hf_model.
     bind_io (resume_phase env rc) (\<lambda>resume_from.
     bind_io (data_phase lib env rc resume_from) (\<lambda>ctx.
     then_io (direct_phase env rc hf_model ctx)
    (bind_io (training_phase lib env rc hf_model ctx) (\<lambda>history.
     return (hf_model, ctx, history))))))"

text \<open>Lines 116 to 606: the body of the outer \<^verbatim>\<open>try\<close> statement.\<close>

definition pipeline :: "pylib \<Rightarrow> env \<Rightarrow> run_config \<Rightarrow> unit io" where
  "pipeline lib env rc =
     bind_io (training_part lib env rc) (\<lambda>(hf_model, ctx, history).
     post_phase env rc hf_model ctx history)"

text \<open>Lines 614 to 623.\<close>

definition failed_snapshot :: "run_config \<Rightarrow> exn \<Rightarrow> snapshot" where
  "failed_snapshot rc e =
     (snapshot_of Failed 0 (''Training failed: '' @ str_exn e) 0 (rc_epochs rc))
     \<lparr>p_error := Some e\<rparr>"

text \<open>How the process ends: with an exit status, or with an exception that nothing
  catches.\<close>

datatype outcome = Exit int | Uncaught exn

text \<open>Lines 115 to 625: the outer \<^verbatim>\<open>try\<close> statement. A run that reaches line 609 ends
  with status 0 (\<^verbatim>\<open>SystemExit\<close> is not an \<^verbatim>\<open>Exception\<close>); an exception is reported in a
  last snapshot and ends the process with status 1.\<close>

definition run_pipeline :: "pylib \<Rightarrow> env \<Rightarrow> run_config \<Rightarrow> event list \<times> outcome" where
  "run_pipeline lib env rc =
     (case pipeline lib env rc of
        (evs, Inr _) \<Rightarrow> (evs, Exit 0)
      | (evs, Inl e) \<Rightarrow> (evs @ [Write_progress (failed_snapshot rc e)], Exit 1))"

text \<open>Lines 97 to 107: the arguments after the configuration file, which is read outside
  the \<^verbatim>\<open>try\<close> statement, has been applied.\<close>

definition merged_args :: "env \<Rightarrow> args \<Rightarrow> exn + args" where
  "merged_args env cli =
     (if truthy_str (config cli)
      then (case config_json env of Inl e \<Rightarrow> Inl e | Inr cfg \<Rightarrow> Inr (apply_config cfg cli))
      else Inr cli)"

text \<open>\<^verbatim>\<open>main\<close>, from the parsed command line on. \<^verbatim>\<open>parser.error\<close> ends the process with
  status 2.\<close>

definition main :: "pylib \<Rightarrow> env \<Rightarrow> args \<Rightarrow> event list \<times> outcome" where
  "main lib env cli =
     (case merged_args env cli of
        Inl e \<Rightarrow> ([], Uncaught e)
      | Inr a \<Rightarrow>
          (case validated a of
             None \<Rightarrow> ([], Exit 2)
           | Some rc \<Rightarrow> run_pipeline lib env rc))"

text \<open>The progress values that a run reports, leaving aside the snapshot that announces a
  resume and the one that reports a failure.\<close>

definition reported_progress :: "event list \<Rightarrow> int list" where
  "reported_progress evs =
     map p_progress
       (filter (\<lambda>s. p_stage s \<noteq> Resuming \<and> p_stage s \<noteq> Failed) (snapshots evs))"

text \<open>The iteration numbers in the snapshots that have one.\<close>

definition reported_steps :: "event list \<Rightarrow> int list" where
  "reported_steps evs = List.map_filter p_step (snapshots evs)"

section \<open>Concrete inputs for the examples\<close>

text \<open>
  Instances of the three builtins that are defined on the inputs of the examples below:
  decimal integers with an optional minus sign, decimal numbers with one point, and
  records that are a single user message holding the text after an opening brace.
\<close>

fun decimal_from :: "int \<Rightarrow> string \<Rightarrow> int option" where
  "decimal_from acc [] = Some acc"
| "decimal_from acc (c # cs) =
     (case map_of (zip ''0123456789'' [0, 1, 2, 3, 4, 5, 6, 7, 8, 9]) c of
        None \<Rightarrow> None
      | Some d \<Rightarrow> decimal_from (acc * 10 + d) cs)"

definition example_int :: "string \<Rightarrow> int option" where
  "example_int s =
     (case s of
        [] \<Rightarrow> None
      | c # cs \<Rightarrow>
          if c = CHR ''-'' then (if cs = [] then None else map_option uminus (decimal_from 0 cs))
          else decimal_from 0 s)"

definition example_float :: "string \<Rightarrow> pyfloat option" where
  "example_float s =
     (case split ''.'' s of
        [ds, fs] \<Rightarrow>
          (if ds = [] \<or> fs = [] then None
           else (case (decimal_from 0 ds, decimal_from 0 fs) of
                   (Some w, Some f) \<Rightarrow>
                     Some (Finite (round53 (of_int w + of_int f / 10 ^ length fs)))
                 | _ \<Rightarrow> None))
      | _ \<Rightarrow> None)"

definition example_loads :: "string \<Rightarrow> exn + message list option" where
  "example_loads s =
     (case s of
        c # cs \<Rightarrow>
          if c = CHR ''{'' then Inr (Some [[''role'' \<mapsto> ''user'', ''content'' \<mapsto> cs]])
          else Inl (Exception ''Expecting value'')
      | [] \<Rightarrow> Inl (Exception ''Expecting value''))"

definition example_lib :: pylib where
  "example_lib =
     \<lparr>int_of_str = example_int, float_of_str = example_float, json_loads = example_loads\<rparr>"

text \<open>A command line that names everything, and an environment in which every step
  succeeds, the dataset has one record and the training process prints nothing.\<close>

definition example_cli :: args where
  "example_cli =
     \<lparr>base_model = Some ''llama3.2:3b'', dataset = Some ''data.jsonl'',
      output_name = Some ''luddo'', epochs = Some 3, progress_file = Some ''progress.json'',
      output_dir = Some ''out'', resume = Some False, config = None\<rparr>"

definition example_rc :: run_config where
  "example_rc =
     \<lparr>rc_base_model = ''llama3.2:3b'', rc_dataset = ''data.jsonl'', rc_output = ''luddo'',
      rc_epochs = Some 3, rc_progress_file = ''progress.json'', rc_output_dir = ''out'',
      rc_resume = False\<rparr>"

definition example_env :: env where
  "example_env =
     \<lparr>config_json = Inl (Exception ''no such file''), mlx_installed = True, pip_install = None,
      import_mlx_lm = None, checkpoint_json = Inr None, dataset_lines = Inr [''{a''],
      direct_setup = Model_loaded, adapter_path_exists = False, lora_process = ([], 0),
      fuse_process = None, gguf_prepare = None, convert_script_exists = True,
      convert_process = Inr 0, gguf_file_exists = True, ollama_process = Inr 0\<rparr>"

text \<open>Loop constants and a state of the loop with one entry recorded.\<close>

definition example_ctx :: loop_ctx where
  "example_ctx =
     \<lparr>resume_from_iter = 0, n_epochs = 3, iters_per_epoch = 100, total_iters = 300,
      dataset_size = 400\<rparr>"

definition example_state :: loop_state where
  "example_state =
     \<lparr>current_iter = 1, current_epoch = 1, loss_history = [Entry 1 (Finite (1 / 2)) 1]\<rparr>"

text \<open>A configuration file that names another model and sets the output name to
  \<^verbatim>\<open>null\<close>, and a command line that points to it.\<close>

definition example_config :: config_file where
  "example_config =
     \<lparr>json_baseModel = Some (Some ''mistral:7b''), json_dataset = None,
      json_output = Some None, json_epochs = Some (Some 5), json_progressFile = None,
      json_outputDir = None, json_resume = None\<rparr>"

definition example_cli_with_config :: args where
  "example_cli_with_config = example_cli\<lparr>config := Some ''run.json''\<rparr>"




text \<open>The loop constants of the example run, resumed from iteration \<open>r\<close>.\<close>

definition example_run_ctx :: "int \<Rightarrow> loop_ctx" where
  "example_run_ctx r =
     \<lparr>resume_from_iter = r, n_epochs = 3, iters_per_epoch = 1, total_iters = 3,
      dataset_size = 1\<rparr>"

text \<open>A progress line as the training process prints it, and the example environment with
  a training process that prints it \<open>k\<close> times before it ends with status 0.\<close>

definition example_line :: string where
  "example_line = ''Iter 100: Train loss 0.5, It/sec 2.0''"

definition example_env_trained :: "nat \<Rightarrow> env" where
  "example_env_trained k = example_env\<lparr>lora_process := (replicate k example_line, 0)\<rparr>"

text \<open>The entry that the example line adds to the loss history in the example run.\<close>

definition example_entry :: entry where
  "example_entry = Entry 100 (Finite (1 / 2)) 3"

section \<open>Properties of the binary64 model\<close>

lemma bit_length_bounds:
  "0 < n \<Longrightarrow> 2 ^ (bit_length n - 1) \<le> n \<and> n < 2 ^ bit_length n"
proof (induction n rule: bit_length.induct)
  case (1 n)
  show ?case
  proof (cases "n = 1")
    case True
    have "bit_length 1 = Suc (bit_length 0)" by (subst bit_length.simps) simp
    also have "bit_length 0 = 0" by (subst bit_length.simps) simp
    finally show ?thesis using True by simp
  next
    case False
    with "1.prems" have h: "0 < n div 2" by simp
    define b where "b = bit_length (n div 2)"
    have ih: "2 ^ (b - 1) \<le> n div 2" "n div 2 < 2 ^ b"
      using "1.IH" "1.prems" h by (simp_all add: b_def)
    have bpos: "0 < b" using h ih(2) by (cases b) simp_all
    have bl: "bit_length n = Suc b" using "1.prems" by (subst bit_length.simps) (simp add: b_def)
    have "(2::int) ^ b = 2 * 2 ^ (b - 1)" using bpos by (cases b) simp_all
    then have lo: "2 ^ b \<le> n" using ih(1) by linarith
    have "n < 2 * 2 ^ b" using ih(2) by linarith
    then show ?thesis using lo bl by simp
  qed
qed

lemma bit_length_pow_bounds:
  assumes "0 < (n::int)"
  shows "(2::rat) powi (int (bit_length n) - 1) \<le> of_int n"
    and "of_int n < (2::rat) powi (int (bit_length n))"
proof -
  from bit_length_bounds[OF assms]
  have b: "2 ^ (bit_length n - 1) \<le> n" "n < 2 ^ bit_length n" by auto
  have pos: "0 < bit_length n" using assms by (subst bit_length.simps) simp
  have "(2::rat) powi (int (bit_length n) - 1) = 2 ^ (bit_length n - 1)"
    using pos by (simp add: power_int_def nat_diff_distrib')
  also have "\<dots> = of_int (2 ^ (bit_length n - 1))" by simp
  also have "\<dots> \<le> of_int n" using b(1) by (simp only: of_int_le_iff)
  finally show "(2::rat) powi (int (bit_length n) - 1) \<le> of_int n" .
  have "(of_int n :: rat) < of_int (2 ^ bit_length n)" using b(2) by (simp only: of_int_less_iff)
  then show "of_int n < (2::rat) powi (int (bit_length n))" by (simp add: power_int_def)
qed

lemma ilog2_bounds:
  assumes "0 < x"
  shows "2 powi (ilog2 x) \<le> x \<and> x < 2 powi (ilog2 x + 1)"
proof -
  obtain p q where pq: "quotient_of x = (p, q)" by (cases "quotient_of x")
  have q: "0 < q" using pq quotient_of_denom_pos by blast
  have x: "x = of_int p / of_int q" using pq quotient_of_div by blast
  have p: "0 < p" using assms q x by (simp add: zero_less_divide_iff)
  define bp where "bp = int (bit_length p)"
  define bq where "bq = int (bit_length q)"
  have P: "(2::rat) powi (bp - 1) \<le> of_int p" "of_int p < (2::rat) powi bp"
    using bit_length_pow_bounds[of p] p by (simp_all add: bp_def)
  have Q: "(2::rat) powi (bq - 1) \<le> of_int q" "of_int q < (2::rat) powi bq"
    using bit_length_pow_bounds[of q] q by (simp_all add: bq_def)
  have pp: "(0::rat) < 2 powi (bq - 1)" "(0::rat) < 2 powi bq" "(0::rat) < 2 powi (bp - 1)"
    by simp_all
  have "x < 2 powi bp / 2 powi (bq - 1)"
    unfolding x using P(2) Q(1) pp p by (intro frac_less) simp_all
  also have "\<dots> = 2 powi (bp - (bq - 1))" by (simp add: power_int_diff)
  finally have up: "x < 2 powi (bp - bq + 1)" by (simp add: algebra_simps)
  have "2 powi (bp - 1) / 2 powi bq \<le> x"
    unfolding x using P(1) Q(2) pp p q by (intro frac_le) simp_all
  moreover have "2 powi (bp - 1) / 2 powi bq = (2::rat) powi (bp - 1 - bq)"
    by (simp add: power_int_diff)
  ultimately have lo: "2 powi (bp - bq - 1) \<le> x" by (simp add: algebra_simps)
  have il: "ilog2 x = (if 2 powi (bp - bq) \<le> x then bp - bq else bp - bq - 1)"
    by (simp add: ilog2_def pq bp_def bq_def Let_def)
  show ?thesis
  proof (cases "2 powi (bp - bq) \<le> x")
    case True then show ?thesis using up il by simp
  next
    case False then show ?thesis using lo il by simp
  qed
qed

lemma ilog2_mono:
  assumes "0 < x" "x \<le> y"
  shows "ilog2 x \<le> ilog2 y"
proof (rule ccontr)
  assume "\<not> ilog2 x \<le> ilog2 y"
  then have "ilog2 y + 1 \<le> ilog2 x" by simp
  then have "(2::rat) powi (ilog2 y + 1) \<le> 2 powi (ilog2 x)"
    by (intro power_int_increasing) simp_all
  moreover have "2 powi (ilog2 x) \<le> x" using ilog2_bounds[OF assms(1)] by simp
  moreover have "y < 2 powi (ilog2 y + 1)" using ilog2_bounds[of y] assms by simp
  ultimately show False using assms(2) by simp
qed

lemma ilog2_less:
  assumes "0 < x" "x < 2 powi k"
  shows "ilog2 x < k"
proof (rule ccontr)
  assume "\<not> ilog2 x < k"
  then have "(2::rat) powi k \<le> 2 powi (ilog2 x)" by (intro power_int_increasing) simp_all
  with ilog2_bounds[OF assms(1)] assms(2) show False by simp
qed

lemma rhe_cases: "round_half_even t = \<lfloor>t\<rfloor> \<or> round_half_even t = \<lfloor>t\<rfloor> + 1"
  by (simp add: round_half_even_def Let_def)

lemma rhe_of_int: "round_half_even (of_int j) = j"
  by (simp add: round_half_even_def Let_def)

lemma rhe_ge: "of_int j \<le> t \<Longrightarrow> j \<le> round_half_even t"
  using rhe_cases[of t] le_floor_iff[of j t] by auto

lemma rhe_le:
  assumes "t \<le> of_int j"
  shows "round_half_even t \<le> j"
proof (cases "t = of_int j")
  case True then show ?thesis by (simp add: rhe_of_int)
next
  case False
  with assms have "t < of_int j" by simp
  then have "\<lfloor>t\<rfloor> < j" by (simp add: floor_less_iff)
  then show ?thesis using rhe_cases[of t] by auto
qed

lemma rhe_mono:
  assumes "s \<le> t"
  shows "round_half_even s \<le> round_half_even t"
proof (cases "\<lfloor>s\<rfloor> = \<lfloor>t\<rfloor>")
  case True
  then have "s - of_int \<lfloor>s\<rfloor> \<le> t - of_int \<lfloor>t\<rfloor>" using assms by simp
  then show ?thesis using True by (auto simp: round_half_even_def Let_def)
next
  case False
  then have "\<lfloor>s\<rfloor> < \<lfloor>t\<rfloor>" using floor_mono[OF assms] by simp
  then have "round_half_even s \<le> \<lfloor>t\<rfloor>" using rhe_cases[of s] by auto
  also have "\<dots> \<le> round_half_even t" using rhe_cases[of t] by auto
  finally show ?thesis .
qed

lemma rhe_upper: "of_int (round_half_even t) \<le> t + 1 / 2"
proof -
  have f: "of_int \<lfloor>t\<rfloor> \<le> t" by simp
  consider "t - of_int \<lfloor>t\<rfloor> < 1 / 2" | "1 / 2 < t - of_int \<lfloor>t\<rfloor>"
    | "t - of_int \<lfloor>t\<rfloor> = 1 / 2"
    by linarith
  then show ?thesis
  proof cases
    case 1
    then have "round_half_even t = \<lfloor>t\<rfloor>" by (simp add: round_half_even_def Let_def)
    with f show ?thesis by linarith
  next
    case 2
    then have "round_half_even t = \<lfloor>t\<rfloor> + 1" by (simp add: round_half_even_def Let_def)
    with 2 show ?thesis by simp
  next
    case 3
    then have "of_int (\<lfloor>t\<rfloor> + 1) \<le> t + 1 / 2" by simp
    with f rhe_cases[of t] show ?thesis by auto
  qed
qed

lemma grid_lower:
  assumes "0 < c" "of_int j * c \<le> x"
  shows "of_int j * c \<le> of_int (round_half_even (x / c)) * c"
proof -
  have "of_int j \<le> x / c" using assms by (simp add: pos_le_divide_eq)
  then have "j \<le> round_half_even (x / c)" by (rule rhe_ge)
  then have "(of_int j :: rat) \<le> of_int (round_half_even (x / c))" by simp
  then show ?thesis using assms(1) by (intro mult_right_mono) simp_all
qed

lemma grid_upper:
  assumes "0 < c" "x \<le> of_int j * c"
  shows "of_int (round_half_even (x / c)) * c \<le> of_int j * c"
proof -
  have "x / c \<le> of_int j" using assms by (simp add: pos_divide_le_eq)
  then have "round_half_even (x / c) \<le> j" by (rule rhe_le)
  then have "(of_int (round_half_even (x / c)) :: rat) \<le> of_int j" by simp
  then show ?thesis using assms(1) by (intro mult_right_mono) simp_all
qed

lemma round53_pos:
  "0 < x \<Longrightarrow>
   round53 x = of_int (round_half_even (x / 2 powi (ilog2 x - 52))) * 2 powi (ilog2 x - 52)"
  by (simp add: round53_def Let_def)

lemma pow2_split: "(2::rat) powi (a + b) = 2 powi a * 2 powi b"
  by (simp add: power_int_add)

lemma round53_lower:
  assumes "0 < x"
  shows "2 powi (ilog2 x) \<le> round53 x"
proof -
  define c where "c = (2::rat) powi (ilog2 x - 52)"
  define K where "K = (2::int) ^ 52"
  have c: "0 < c" by (simp add: c_def)
  have K: "of_int K * c = 2 powi (ilog2 x)"
    using pow2_split[of 52 "ilog2 x - 52"] by (simp add: c_def K_def)
  have "of_int K * c \<le> x" using ilog2_bounds[OF assms] K by simp
  from grid_lower[OF c this] have "of_int K * c \<le> round53 x"
    unfolding round53_pos[OF assms] c_def .
  then show ?thesis unfolding K .
qed

lemma round53_upper:
  assumes "0 < x"
  shows "round53 x \<le> 2 powi (ilog2 x + 1)"
proof -
  define c where "c = (2::rat) powi (ilog2 x - 52)"
  define K where "K = (2::int) ^ 53"
  have c: "0 < c" by (simp add: c_def)
  have "(2::rat) powi (53 + (ilog2 x - 52)) = 2 powi 53 * 2 powi (ilog2 x - 52)"
    by (rule pow2_split)
  moreover have "53 + (ilog2 x - 52) = ilog2 x + 1" by simp
  ultimately have K: "of_int K * c = 2 powi (ilog2 x + 1)"
    by (simp add: c_def K_def)
  have "x \<le> of_int K * c" using ilog2_bounds[OF assms] K by simp
  from grid_upper[OF c this] have "round53 x \<le> of_int K * c"
    unfolding round53_pos[OF assms] c_def .
  then show ?thesis unfolding K .
qed

lemma round53_mono_pos:
  assumes "0 < x" "x \<le> y"
  shows "round53 x \<le> round53 y"
proof (cases "ilog2 x = ilog2 y")
  case True
  have y: "0 < y" using assms by simp
  have "x / 2 powi (ilog2 y - 52) \<le> y / 2 powi (ilog2 y - 52)"
    using assms(2) by (simp add: divide_right_mono)
  then have "round_half_even (x / 2 powi (ilog2 y - 52))
      \<le> round_half_even (y / 2 powi (ilog2 y - 52))"
    by (rule rhe_mono)
  then have "of_int (round_half_even (x / 2 powi (ilog2 y - 52))) * 2 powi (ilog2 y - 52)
      \<le> of_int (round_half_even (y / 2 powi (ilog2 y - 52))) * (2::rat) powi (ilog2 y - 52)"
    by (intro mult_right_mono) simp_all
  then show ?thesis using assms y True by (simp add: round53_pos)
next
  case False
  have y: "0 < y" using assms by simp
  from False ilog2_mono[OF assms] have "ilog2 x + 1 \<le> ilog2 y" by simp
  then have "(2::rat) powi (ilog2 x + 1) \<le> 2 powi (ilog2 y)"
    by (intro power_int_increasing) simp_all
  with round53_upper[OF assms(1)] round53_lower[OF y] show ?thesis by simp
qed

lemma round53_nonneg: "0 \<le> x \<Longrightarrow> 0 \<le> round53 x"
proof (cases "x = 0")
  case True then show ?thesis by (simp add: round53_def)
next
  case False
  assume "0 \<le> x"
  with False have x: "0 < x" by simp
  have "(0::rat) \<le> (2::rat) powi (ilog2 x)" by simp
  with round53_lower[OF x] show ?thesis by linarith
qed

lemma round53_mono:
  assumes "0 \<le> x" "x \<le> y"
  shows "round53 x \<le> round53 y"
proof (cases "x = 0")
  case True
  then show ?thesis using round53_nonneg[of y] assms by (simp add: round53_def)
next
  case False
  then show ?thesis using assms round53_mono_pos by simp
qed

lemma trunc_mono: "x \<le> y \<Longrightarrow> trunc x \<le> trunc y"
  by (smt (verit, best) ceiling_le_iff floor_mono nle_le of_int_0
    order.trans trunc_def zero_le_floor)

lemma int_on_grid:
  assumes "e \<le> 0"
  shows "(of_int k :: rat) = of_int (k * 2 ^ nat (- e)) * 2 powi e"
proof -
  have "(2::rat) powi (e + - e) = 2 powi e * 2 powi (- e)" by (rule pow2_split)
  then have a: "(2::rat) powi e * 2 powi (- e) = 1" by simp
  have "0 \<le> - e" using assms by simp
  then have b: "(2::rat) powi (- e) = 2 ^ nat (- e)" by (rule power_int_nonneg_exp)
  have "(of_int (k * 2 ^ nat (- e)) :: rat) * 2 powi e = of_int k * (2 ^ nat (- e) * 2 powi e)"
    by (simp add: mult.assoc)
  also have "(2::rat) ^ nat (- e) * 2 powi e = 1" using a b by (simp add: mult.commute)
  finally show ?thesis by simp
qed

lemma round53_ge_int:
  assumes "0 < x" "x < 2 powi 53" "of_int k \<le> x"
  shows "of_int k \<le> round53 x"
proof -
  define e where "e = ilog2 x - 52"
  have e: "e \<le> 0" using ilog2_less[OF assms(1,2)] by (simp add: e_def)
  have c: "(0::rat) < 2 powi e" by simp
  have g: "(of_int k :: rat) = of_int (k * 2 ^ nat (- e)) * 2 powi e" by (rule int_on_grid[OF e])
  have "of_int (k * 2 ^ nat (- e)) * 2 powi e \<le> x" using assms(3) unfolding g[symmetric] .
  from grid_lower[OF c this] show ?thesis
    unfolding round53_pos[OF assms(1)] e_def[symmetric] g[symmetric] .
qed

lemma round53_le_int:
  assumes "0 < x" "x < 2 powi 53" "x \<le> of_int k"
  shows "round53 x \<le> of_int k"
proof -
  define e where "e = ilog2 x - 52"
  have e: "e \<le> 0" using ilog2_less[OF assms(1,2)] by (simp add: e_def)
  have c: "(0::rat) < 2 powi e" by simp
  have g: "(of_int k :: rat) = of_int (k * 2 ^ nat (- e)) * 2 powi e" by (rule int_on_grid[OF e])
  have "x \<le> of_int (k * 2 ^ nat (- e)) * 2 powi e" using assms(3) unfolding g[symmetric] .
  from grid_upper[OF c this] show ?thesis
    unfolding round53_pos[OF assms(1)] e_def[symmetric] g[symmetric] .
qed

lemma round53_of_nat:
  assumes "n < 2 ^ 53"
  shows "round53 (of_nat n) = of_nat n"
proof (cases "n = 0")
  case True then show ?thesis by (simp add: round53_def)
next
  case False
  then have x: "(0::rat) < of_nat n" by simp
  have "(of_nat n :: rat) < of_nat (2 ^ 53)" using assms by (simp only: of_nat_less_iff)
  then have b: "(of_nat n :: rat) < 2 powi 53" by simp
  have "of_int (int n) \<le> round53 (of_nat n)" by (rule round53_ge_int[OF x b]) simp
  moreover have "round53 (of_nat n) \<le> of_int (int n)" by (rule round53_le_int[OF x b]) simp
  ultimately show ?thesis by simp
qed

lemma round53_err_upper:
  assumes "0 < x"
  shows "round53 x \<le> x + x / 2 ^ 53"
proof -
  define c where "c = (2::rat) powi (ilog2 x - 52)"
  have c: "0 < c" by (simp add: c_def)
  have "of_int (round_half_even (x / c)) \<le> x / c + 1 / 2" by (rule rhe_upper)
  then have "of_int (round_half_even (x / c)) * c \<le> (x / c + 1 / 2) * c"
    using c by (intro mult_right_mono) simp_all
  also have "\<dots> = x + c / 2" using c by (simp add: field_simps)
  finally have r: "round53 x \<le> x + c / 2" unfolding round53_pos[OF assms] c_def .
  have "(2::rat) powi (52 + (ilog2 x - 52)) = 2 powi 52 * c" unfolding c_def by (rule pow2_split)
  then have "2 powi (ilog2 x) = 2 ^ 52 * c" by simp
  with ilog2_bounds[OF assms] have "2 ^ 52 * c \<le> x" by simp
  then have "c / 2 \<le> x / 2 ^ 53" by simp
  with r show ?thesis by linarith
qed

text \<open>Below \<open>2\<^sup>4\<^sup>9\<close> the float product \<^verbatim>\<open>n * 0.9\<close> truncates to \<open>\<lfloor>9n / 10\<rfloor>\<close>.\<close>

lemma int_times_0_9_exact:
  assumes "n < 2 ^ 49"
  shows "int_times_0_9 n = int ((9 * n) div 10)"
proof (cases "n = 0")
  case True then show ?thesis by (simp add: int_times_0_9_def round53_def trunc_def)
next
  case False
  define x where "x = (of_nat n :: rat) * double_0_9"
  define k where "k = (9 * int n) div 10"
  have n53: "n < 2 ^ 53" using assms by simp
  have npos: "(0::rat) < of_nat n" using False by simp
  have "(of_nat n :: rat) < of_nat (2 ^ 49)" using assms by (simp only: of_nat_less_iff)
  then have nlt: "(of_nat n :: rat) < 562949953421312" by simp
  have x: "0 < x" using npos by (simp add: x_def double_0_9_def)
  have x10: "x = of_nat n * (8106479329266893 / 9007199254740992)"
    by (simp add: x_def double_0_9_def)
  have xlt: "x < 2 powi 53" using nlt npos x10 by simp
  have "10 * k \<le> 9 * int n" "9 * int n \<le> 10 * k + 9" unfolding k_def by presburger+
  then have "(of_int (10 * k) :: rat) \<le> of_int (9 * int n)"
    "(of_int (9 * int n)::rat) \<le> of_int (10 * k + 9)"
    by (simp_all only: of_int_le_iff)
  then have k1: "10 * (of_int k :: rat) \<le> 9 * of_nat n"
    and k2: "9 * (of_nat n :: rat) \<le> 10 * of_int k + 9"
    by simp_all
  have lo: "of_int k \<le> x" using k1 npos x10 by simp
  have "of_int k \<le> round53 x" by (rule round53_ge_int[OF x xlt lo])
  moreover have "round53 x < of_int k + 1"
  proof -
    have "round53 x \<le> x + x / 2 ^ 53" by (rule round53_err_upper[OF x])
    moreover have "x + x / 2 ^ 53 < of_int k + 1" using k2 nlt npos x10 by simp
    ultimately show ?thesis by linarith
  qed
  ultimately have "\<lfloor>round53 x\<rfloor> = k" by (simp add: floor_unique)
  moreover have "0 \<le> round53 x" using x by (intro round53_nonneg) simp
  ultimately have "trunc (round53 x) = k" by (simp add: trunc_def)
  moreover have "k = int ((9 * n) div 10)" by (simp add: k_def zdiv_int)
  ultimately show ?thesis by (simp add: int_times_0_9_def round53_of_nat[OF n53] x_def)
qed

section \<open>Properties of the read loop\<close>

lemma snapshots_append: "snapshots (xs @ ys) = snapshots xs @ snapshots ys"
  by (induction xs rule: snapshots.induct) simp_all

lemma checkpoints_append: "checkpoints (xs @ ys) = checkpoints xs @ checkpoints ys"
  by (induction xs rule: checkpoints.induct) simp_all

lemma snapshots_progress_events:
  "snapshots (progress_events ctx st p l) = [training_snapshot ctx st p l]"
  by (simp add: progress_events_def)

lemma checkpoints_progress_events:
  "checkpoints (progress_events ctx st p l) =
     (if current_iter st mod 100 = 0 then [training_checkpoint ctx st l] else [])"
  by (simp add: progress_events_def)

text \<open>What one pass of the \<^verbatim>\<open>try\<close> body can do: nothing to the history and the files, or
  append one entry and write the files for it.\<close>

lemma record_progress_cases:
  assumes "record_progress ctx st l = (err, st', evs)"
  shows "(err \<noteq> None \<and> evs = [] \<and> loss_history st' = loss_history st)
       \<or> (\<exists>p. err = None
             \<and> progress_value (current_iter st') (total_iters ctx) = Inr p
             \<and> current_iter st' = current_iter st
             \<and> current_epoch st' = min (n_epochs ctx) (current_iter st' div iters_per_epoch ctx + 1)
             \<and> loss_history st' = loss_history st @ [Entry (current_iter st') l (current_epoch st')]
             \<and> evs = progress_events ctx st' p l)"
  using assms
  by (cases "progress_value (current_iter st) (total_iters ctx)")
     (auto simp: record_progress_def Let_def)

lemma try_body_cases:
  assumes "try_body lib ctx st line = (err, st', evs)"
  shows "(evs = [] \<and> loss_history st' = loss_history st)
       \<or> (\<exists>p l. err = None \<and> l \<noteq> Finite 0
             \<and> progress_value (current_iter st') (total_iters ctx) = Inr p
             \<and> current_epoch st' = min (n_epochs ctx) (current_iter st' div iters_per_epoch ctx + 1)
             \<and> loss_history st' = loss_history st @ [Entry (current_iter st') l (current_epoch st')]
             \<and> evs = progress_events ctx st' p l)"
proof (cases "parse_iter lib line")
  case (Inl e)
  with assms show ?thesis by (simp add: try_body_def)
next
  case (Inr r)
  obtain part rel where r: "r = (part, rel)" by (cases r)
  define st1 where "st1 = st\<lparr>current_iter := resume_from_iter ctx + rel\<rparr>"
  have h1: "loss_history st1 = loss_history st" by (simp add: st1_def)
  show ?thesis
  proof (cases "parse_loss lib part")
    case (Inl e)
    with assms Inr r show ?thesis by (auto simp: try_body_def)
  next
    case loss: (Inr train_loss)
    show ?thesis
    proof (cases train_loss)
      case None
      with assms Inr r loss show ?thesis by (auto simp: try_body_def)
    next
      case (Some l)
      show ?thesis
      proof (cases "l = Finite 0")
        case True
        with assms Inr r loss Some show ?thesis by (auto simp: try_body_def truthy_float_def)
      next
        case False
        with assms Inr r loss Some have "record_progress ctx st1 l = (err, st', evs)"
          by (simp add: try_body_def truthy_float_def st1_def)
        from record_progress_cases[OF this] h1 False show ?thesis by auto
      qed
    qed
  qed
qed

lemma try_body_error:
  assumes "try_body lib ctx st line = (Some e, st', evs)"
  shows "evs = [] \<and> loss_history st' = loss_history st"
  using try_body_cases[OF assms] by auto

lemma handle_line_cases:
  assumes "handle_line lib ctx st line = (st', evs)"
  shows "(evs = [] \<and> loss_history st' = loss_history st)
       \<or> (\<exists>p l. l \<noteq> Finite 0
             \<and> progress_value (current_iter st') (total_iters ctx) = Inr p
             \<and> current_epoch st' = min (n_epochs ctx) (current_iter st' div iters_per_epoch ctx + 1)
             \<and> loss_history st' = loss_history st @ [Entry (current_iter st') l (current_epoch st')]
             \<and> evs = progress_events ctx st' p l)"
proof (cases "str_in ''Iter'' line \<and> str_in ''Train loss'' line")
  case False
  with assms show ?thesis by (auto simp: handle_line_def)
next
  case True
  obtain err st2 evs2 where t: "try_body lib ctx st line = (err, st2, evs2)"
    by (cases "try_body lib ctx st line") auto
  with True assms have "st' = st2" "evs = evs2" by (simp_all add: handle_line_def)
  with try_body_cases[OF t] show ?thesis by auto
qed

lemma training_loop_Cons:
  "training_loop lib ctx st (line # rest) =
     (fst (training_loop lib ctx (fst (handle_line lib ctx st line)) rest),
      snd (handle_line lib ctx st line)
      @ snd (training_loop lib ctx (fst (handle_line lib ctx st line)) rest))"
  by (simp add: case_prod_beta)

declare training_loop.simps(2) [simp del]

text \<open>The history only grows.\<close>

lemma handle_line_prefix:
  "prefix (loss_history st) (loss_history (fst (handle_line lib ctx st line)))"
  using handle_line_cases[of lib ctx st line "fst (handle_line lib ctx st line)"
      "snd (handle_line lib ctx st line)"]
  by auto

lemma training_loop_prefix:
  "prefix (loss_history st) (loss_history (fst (training_loop lib ctx st lines)))"
proof (induction lines arbitrary: st)
  case Nil
  then show ?case by simp
next
  case (Cons line rest)
  have "prefix (loss_history st) (loss_history (fst (handle_line lib ctx st line)))"
    by (rule handle_line_prefix)
  also have "prefix \<dots> (loss_history (fst (training_loop lib ctx (fst (handle_line lib ctx st line)) rest)))"
    by (rule Cons.IH)
  finally show ?case by (simp add: training_loop_Cons)
qed

text \<open>Every snapshot of the loop is the training snapshot of some state of the loop, whose
  history is a prefix of the final one.\<close>

lemma training_loop_snapshots:
  assumes "s \<in> set (snapshots (snd (training_loop lib ctx st lines)))"
  shows "\<exists>st' p l. s = training_snapshot ctx st' p l
           \<and> progress_value (current_iter st') (total_iters ctx) = Inr p
           \<and> current_epoch st' = min (n_epochs ctx) (current_iter st' div iters_per_epoch ctx + 1)
           \<and> prefix (loss_history st') (loss_history (fst (training_loop lib ctx st lines)))"
  using assms
proof (induction lines arbitrary: st)
  case Nil
  then show ?case by simp
next
  case (Cons line rest)
  define st1 where "st1 = fst (handle_line lib ctx st line)"
  define evs1 where "evs1 = snd (handle_line lib ctx st line)"
  have hl: "handle_line lib ctx st line = (st1, evs1)" by (simp add: st1_def evs1_def)
  from Cons.prems have "s \<in> set (snapshots evs1)
      \<or> s \<in> set (snapshots (snd (training_loop lib ctx st1 rest)))"
    by (simp add: training_loop_Cons snapshots_append st1_def evs1_def)
  then show ?case
  proof
    assume a: "s \<in> set (snapshots evs1)"
    with handle_line_cases[OF hl] obtain p l where
      pl: "progress_value (current_iter st1) (total_iters ctx) = Inr p"
        "current_epoch st1 = min (n_epochs ctx) (current_iter st1 div iters_per_epoch ctx + 1)"
        "evs1 = progress_events ctx st1 p l"
      by auto
    from a pl(3) have "s = training_snapshot ctx st1 p l" by (simp add: snapshots_progress_events)
    moreover have "prefix (loss_history st1) (loss_history (fst (training_loop lib ctx st (line # rest))))"
      using training_loop_prefix[of st1 lib ctx rest] by (simp add: training_loop_Cons st1_def)
    ultimately show ?thesis using pl(1,2) by blast
  next
    assume "s \<in> set (snapshots (snd (training_loop lib ctx st1 rest)))"
    from Cons.IH[OF this] show ?thesis by (simp add: training_loop_Cons st1_def)
  qed
qed

lemma training_loop_checkpoints:
  assumes "c \<in> set (checkpoints (snd (training_loop lib ctx st lines)))"
  shows "\<exists>st' l. c = training_checkpoint ctx st' l
           \<and> prefix (loss_history st') (loss_history (fst (training_loop lib ctx st lines)))"
  using assms
proof (induction lines arbitrary: st)
  case Nil
  then show ?case by simp
next
  case (Cons line rest)
  define st1 where "st1 = fst (handle_line lib ctx st line)"
  define evs1 where "evs1 = snd (handle_line lib ctx st line)"
  have hl: "handle_line lib ctx st line = (st1, evs1)" by (simp add: st1_def evs1_def)
  from Cons.prems have "c \<in> set (checkpoints evs1)
      \<or> c \<in> set (checkpoints (snd (training_loop lib ctx st1 rest)))"
    by (simp add: training_loop_Cons checkpoints_append st1_def evs1_def)
  then show ?case
  proof
    assume a: "c \<in> set (checkpoints evs1)"
    with handle_line_cases[OF hl] obtain p l where
      pl: "evs1 = progress_events ctx st1 p l"
      by auto
    from a pl have "c = training_checkpoint ctx st1 l"
      by (simp add: checkpoints_progress_events split: if_splits)
    moreover have "prefix (loss_history st1) (loss_history (fst (training_loop lib ctx st (line # rest))))"
      using training_loop_prefix[of st1 lib ctx rest] by (simp add: training_loop_Cons st1_def)
    ultimately show ?thesis by blast
  next
    assume "c \<in> set (checkpoints (snd (training_loop lib ctx st1 rest)))"
    from Cons.IH[OF this] show ?thesis by (simp add: training_loop_Cons st1_def)
  qed
qed

text \<open>The loop writes the two files and does nothing else.\<close>

lemma training_loop_events:
  assumes "ev \<in> set (snd (training_loop lib ctx st lines))"
  shows "(\<exists>s. ev = Write_progress s) \<or> (\<exists>c. ev = Save_checkpoint c)"
  using assms
proof (induction lines arbitrary: st)
  case Nil
  then show ?case by simp
next
  case (Cons line rest)
  define st1 where "st1 = fst (handle_line lib ctx st line)"
  define evs1 where "evs1 = snd (handle_line lib ctx st line)"
  have hl: "handle_line lib ctx st line = (st1, evs1)" by (simp add: st1_def evs1_def)
  from Cons.prems have "ev \<in> set evs1 \<or> ev \<in> set (snd (training_loop lib ctx st1 rest))"
    by (simp add: training_loop_Cons st1_def evs1_def)
  then show ?case
  proof
    assume "ev \<in> set evs1"
    with handle_line_cases[OF hl] show ?thesis
      by (auto simp: progress_events_def split: if_splits)
  next
    assume "ev \<in> set (snd (training_loop lib ctx st1 rest))"
    from Cons.IH[OF this] show ?thesis .
  qed
qed

section \<open>Properties of the pipeline steps\<close>

lemma fst_bind_io:
  "fst (bind_io m f) = fst m @ (case snd m of Inl e \<Rightarrow> [] | Inr x \<Rightarrow> fst (f x))"
  by (cases m; cases "snd m") (auto simp: bind_io_def split: prod.splits)

lemma snd_bind_io:
  "snd (bind_io m f) = (case snd m of Inl e \<Rightarrow> Inl e | Inr x \<Rightarrow> snd (f x))"
  by (cases m; cases "snd m") (auto simp: bind_io_def split: prod.splits)

lemma fst_then_io:
  "fst (then_io m k) = fst m @ (case snd m of Inl e \<Rightarrow> [] | Inr x \<Rightarrow> fst k)"
  by (simp add: then_io_def fst_bind_io)

lemma snd_then_io:
  "snd (then_io m k) = (case snd m of Inl e \<Rightarrow> Inl e | Inr x \<Rightarrow> snd k)"
  by (simp add: then_io_def snd_bind_io)

lemma io_simps:
  "fst (return x) = []" "snd (return x) = Inr x"
  "fst (raise e) = []" "snd (raise e) = Inl e"
  "fst (emit ev) = [ev]" "snd (emit ev) = Inr ()"
  "fst (write_progress s) = [Write_progress s]" "snd (write_progress s) = Inr ()"
  "fst (check r) = []" "snd (check r) = (case r of None \<Rightarrow> Inr () | Some e \<Rightarrow> Inl e)"
  "fst (result_of v) = []" "snd (result_of v) = v"
  by (simp_all add: return_def raise_def emit_def write_progress_def check_def result_of_def
      split: option.splits sum.splits)

lemmas io_rules = fst_bind_io snd_bind_io fst_then_io snd_then_io io_simps

lemma snapshot_of_simps:
  "p_stage (snapshot_of st pr msg ep tot) = st"
  "p_progress (snapshot_of st pr msg ep tot) = pr"
  "p_message (snapshot_of st pr msg ep tot) = msg"
  "p_epoch (snapshot_of st pr msg ep tot) = ep"
  "p_total_epochs (snapshot_of st pr msg ep tot) = tot"
  "p_step (snapshot_of st pr msg ep tot) = None"
  "p_loss_history (snapshot_of st pr msg ep tot) = None"
  "p_dataset_size (snapshot_of st pr msg ep tot) = None"
  "p_total_steps (snapshot_of st pr msg ep tot) = None"
  by (simp_all add: snapshot_of_def)

lemma training_snapshot_simps:
  "p_stage (training_snapshot ctx st p l) = Training"
  "p_progress (training_snapshot ctx st p l) = min p 95"
  "p_epoch (training_snapshot ctx st p l) = current_epoch st"
  "p_total_epochs (training_snapshot ctx st p l) = Some (n_epochs ctx)"
  "p_step (training_snapshot ctx st p l) = Some (current_iter st)"
  "p_total_steps (training_snapshot ctx st p l) = Some (total_iters ctx)"
  "p_dataset_size (training_snapshot ctx st p l) = Some (dataset_size ctx)"
  "p_loss_history (training_snapshot ctx st p l) = Some (last_n 50 (loss_history st))"
  by (simp_all add: training_snapshot_def snapshot_of_simps)

lemma post_snapshot_simps:
  "p_stage (post_snapshot rc ctx h st pr msg) = st"
  "p_progress (post_snapshot rc ctx h st pr msg) = pr"
  "p_message (post_snapshot rc ctx h st pr msg) = msg"
  "p_step (post_snapshot rc ctx h st pr msg) = None"
  "p_loss_history (post_snapshot rc ctx h st pr msg) = Some h"
  by (simp_all add: post_snapshot_def snapshot_of_simps)

lemma completed_snapshot_simps:
  "p_stage (completed_snapshot rc ctx h) = Completed"
  "p_progress (completed_snapshot rc ctx h) = 100"
  "p_message (completed_snapshot rc ctx h) = ''Training complete! Model: '' @ rc_output rc"
  "p_step (completed_snapshot rc ctx h) = None"
  "p_loss_history (completed_snapshot rc ctx h) = Some h"
  by (simp_all add: completed_snapshot_def post_snapshot_simps)

lemma failed_snapshot_simps:
  "p_stage (failed_snapshot rc e) = Failed"
  "p_progress (failed_snapshot rc e) = 0"
  "p_step (failed_snapshot rc e) = None"
  "p_loss_history (failed_snapshot rc e) = None"
  by (simp_all add: failed_snapshot_def snapshot_of_simps)

lemma resuming_snapshot_simps:
  "p_stage (resuming_snapshot rc c) = Resuming"
  "p_progress (resuming_snapshot rc c) = 5"
  "p_step (resuming_snapshot rc c) = None"
  by (simp_all add: resuming_snapshot_def snapshot_of_simps)

text \<open>The events of each phase, written out.\<close>

lemma setup_phase_events:
  "fst (setup_phase env rc) =
     Write_progress (snapshot_of Initializing 0 ''Checking dependencies...'' 0 (rc_epochs rc))
     # (if mlx_installed env then []
        else [Write_progress (snapshot_of Installing 2 ''Installing MLX-LM...'' 0 (rc_epochs rc)),
              Subprocess Pip_install_mlx])
     @ (if (mlx_installed env \<or> pip_install env = None) \<and> import_mlx_lm env = None
        then [Write_progress (snapshot_of Loading_model 5
                (''Setting up for model: '' @ rc_base_model rc @ ''...'') 0 (rc_epochs rc)),
              Write_progress (snapshot_of Preparing_data 10 ''Preparing training data...'' 0
                (rc_epochs rc))]
        else [])"
  by (auto simp: setup_phase_def io_rules split: option.splits)

lemma setup_phase_result:
  "snd (setup_phase env rc) = Inr hf \<Longrightarrow> hf = resolve_hf_model (rc_base_model rc)"
  by (auto simp: setup_phase_def io_rules split: option.splits if_splits)

lemma resume_phase_events:
  "fst (resume_phase env rc) =
     (if rc_resume rc then
        (case checkpoint_json env of
           Inr (Some c) \<Rightarrow>
             if truthy_checkpoint c then [Write_progress (resuming_snapshot rc c)] else []
         | _ \<Rightarrow> [])
      else [])"
  by (auto simp: resume_phase_def io_rules split: option.splits sum.splits)

lemma resume_phase_result:
  "snd (resume_phase env rc) =
     (if rc_resume rc then
        (case checkpoint_json env of
           Inl e \<Rightarrow> Inl e
         | Inr None \<Rightarrow> Inr 0
         | Inr (Some c) \<Rightarrow> Inr (if truthy_checkpoint c then dict_get (c_last_iter c) 0 else 0))
      else Inr 0)"
  by (auto simp: resume_phase_def io_rules split: option.splits sum.splits)

lemma data_phase_events:
  "fst (data_phase lib env rc r) =
     (case convert_jsonl_to_mlx_format lib (dataset_lines env) of
        Inl e \<Rightarrow> []
      | Inr (files, dsize) \<Rightarrow>
          [Write_dataset (data_dir rc) files,
           Write_progress
             ((snapshot_of Starting_training 15
                 (''Starting LoRA training on '' @ str_int (int dsize) @ '' examples...'')
                 0 (rc_epochs rc))
              \<lparr>p_dataset_size := Some dsize\<rparr>)])"
  by (auto simp: data_phase_def io_rules split: option.splits sum.splits prod.splits)

lemma data_phase_result:
  assumes "snd (data_phase lib env rc r) = Inr ctx"
  shows "resume_from_iter ctx = r \<and> rc_epochs rc = Some (n_epochs ctx)
       \<and> iters_per_epoch ctx = max 1 (int (dataset_size ctx) div 4)
       \<and> total_iters ctx = max 1 (int (dataset_size ctx) div 4) * n_epochs ctx"
  using assms
  by (auto simp: data_phase_def io_rules split: option.splits sum.splits prod.splits)

lemma direct_phase_result: "snd (direct_phase env rc hf ctx) = Inr ()"
  by (cases "direct_setup env") (simp_all add: direct_phase_def io_rules)

lemma direct_phase_snapshots:
  "map p_progress (snapshots (fst (direct_phase env rc hf ctx))) =
       (case direct_setup env of Tuner_import_fails \<Rightarrow> [] | Model_load_fails \<Rightarrow> [20]
        | Model_loaded \<Rightarrow> [20, 25])
   \<and> (\<forall>s \<in> set (snapshots (fst (direct_phase env rc hf ctx))).
         p_step s = None \<and> p_loss_history s = None
         \<and> (p_stage s = Loading_model \<or> p_stage s = Applying_lora))"
  by (cases "direct_setup env") (simp_all add: direct_phase_def io_rules snapshot_of_simps)


lemma training_start_snapshot_simps:
  "p_stage (training_start_snapshot rc ctx) = Training"
  "p_progress (training_start_snapshot rc ctx) = 30"
  "p_step (training_start_snapshot rc ctx) = None"
  "p_loss_history (training_start_snapshot rc ctx) = None"
  by (simp_all add: training_start_snapshot_def snapshot_of_simps)

lemma training_phase_skipped:
  assumes "total_iters ctx - resume_from_iter ctx \<le> 0"
  shows "training_phase lib env rc hf ctx
           = ([Write_progress (training_start_snapshot rc ctx)], Inr [])"
  using assms
  by (simp add: training_phase_def then_io_def bind_io_def write_progress_def emit_def return_def)

lemma training_phase_run:
  assumes "\<not> total_iters ctx - resume_from_iter ctx \<le> 0"
  shows "fst (training_phase lib env rc hf ctx)
           = Write_progress (training_start_snapshot rc ctx)
             # Subprocess (lora_command env rc hf ctx)
             # snd (training_loop lib ctx (initial_state ctx) (fst (lora_process env)))"
    and "snd (training_phase lib env rc hf ctx)
           = (if snd (lora_process env) \<noteq> 0
              then Inl (Exception (''Training failed with exit code ''
                                   @ str_int (snd (lora_process env))))
              else Inr (loss_history
                          (fst (training_loop lib ctx (initial_state ctx) (fst (lora_process env))))))"
  using assms
  by (simp_all add: training_phase_def io_rules split: prod.splits)

lemma convert_phase_result: "\<exists>r. snd (convert_phase env rc) = Inr r"
  by (auto simp: convert_phase_def io_rules split: option.splits sum.splits)

lemma convert_phase_failed:
  assumes "gguf_prepare env \<noteq> None \<or> \<not> convert_script_exists env \<or> convert_process env \<noteq> Inr 0"
  shows "snd (convert_phase env rc) = Inr None"
  using assms by (auto simp: convert_phase_def io_rules split: option.splits sum.splits)

lemma convert_phase_events:
  "fst (convert_phase env rc) =
     (if gguf_prepare env = None \<and> convert_script_exists env
      then [Subprocess (Convert_hf_to_gguf (gguf_path rc) (single_path rc))] else [])"
  by (auto simp: convert_phase_def io_rules split: option.splits sum.splits)

lemma post_phase_events:
  "fst (post_phase env rc hf ctx h) =
     [Write_progress (post_snapshot rc ctx h Fusing_model 96 ''Fusing adapters with base model...''),
      Subprocess (Fuse hf (adapter_path rc) (fused_path rc))]
     @ (case fuse_process env of
          Some e \<Rightarrow> []
        | None \<Rightarrow>
            Write_progress (post_snapshot rc ctx h Converting_gguf 97
                              ''Converting model to GGUF format...'')
            # fst (convert_phase env rc)
            @ [Write_progress (post_snapshot rc ctx h Importing_ollama 99
                                 ''Importing model to Ollama...''),
               Write_modelfile (modelfile_path rc)
                 (model_source env rc (case snd (convert_phase env rc) of Inr r \<Rightarrow> r | Inl e \<Rightarrow> None)),
               Subprocess (Ollama_create (rc_output rc) (modelfile_path rc))]
            @ (case ollama_process env of
                 Inl e \<Rightarrow> []
               | Inr code \<Rightarrow> [Write_progress (completed_snapshot rc ctx h)]))"
  using convert_phase_result[of env rc]
  by (auto simp: post_phase_def io_rules split: option.splits sum.splits)

lemma post_phase_result:
  "snd (post_phase env rc hf ctx h) =
     (case fuse_process env of
        Some e \<Rightarrow> Inl e
      | None \<Rightarrow> (case ollama_process env of Inl e \<Rightarrow> Inl e | Inr code \<Rightarrow> Inr ()))"
  using convert_phase_result[of env rc]
  by (auto simp: post_phase_def io_rules split: option.splits sum.splits)

lemma training_part_events:
  "fst (training_part lib env rc) =
     fst (setup_phase env rc)
     @ (case snd (setup_phase env rc) of
          Inl e \<Rightarrow> []
        | Inr hf \<Rightarrow>
            fst (resume_phase env rc)
            @ (case snd (resume_phase env rc) of
                 Inl e \<Rightarrow> []
               | Inr r \<Rightarrow>
                   fst (data_phase lib env rc r)
                   @ (case snd (data_phase lib env rc r) of
                        Inl e \<Rightarrow> []
                      | Inr ctx \<Rightarrow>
                          fst (direct_phase env rc hf ctx)
                          @ fst (training_phase lib env rc hf ctx))))"
  by (simp add: training_part_def io_rules direct_phase_result split: sum.splits)

lemma training_part_result:
  "snd (training_part lib env rc) =
     (case snd (setup_phase env rc) of
        Inl e \<Rightarrow> Inl e
      | Inr hf \<Rightarrow>
          (case snd (resume_phase env rc) of
             Inl e \<Rightarrow> Inl e
           | Inr r \<Rightarrow>
               (case snd (data_phase lib env rc r) of
                  Inl e \<Rightarrow> Inl e
                | Inr ctx \<Rightarrow>
                    (case snd (training_phase lib env rc hf ctx) of
                       Inl e \<Rightarrow> Inl e
                     | Inr h \<Rightarrow> Inr (hf, ctx, h)))))"
  by (simp add: training_part_def io_rules direct_phase_result split: sum.splits)

lemma pipeline_events:
  "fst (pipeline lib env rc) =
     fst (training_part lib env rc)
     @ (case snd (training_part lib env rc) of
          Inl e \<Rightarrow> []
        | Inr (hf, ctx, h) \<Rightarrow> fst (post_phase env rc hf ctx h))"
  by (simp add: pipeline_def io_rules split: sum.splits prod.splits)

lemma pipeline_result:
  "snd (pipeline lib env rc) =
     (case snd (training_part lib env rc) of
        Inl e \<Rightarrow> Inl e
      | Inr (hf, ctx, h) \<Rightarrow> snd (post_phase env rc hf ctx h))"
  by (simp add: pipeline_def io_rules split: sum.splits prod.splits)

lemma run_pipeline_events:
  "fst (run_pipeline lib env rc) =
     fst (pipeline lib env rc)
     @ (case snd (pipeline lib env rc) of
          Inl e \<Rightarrow> [Write_progress (failed_snapshot rc e)]
        | Inr u \<Rightarrow> [])"
  by (simp add: run_pipeline_def split: prod.splits sum.splits)

lemma run_pipeline_result:
  "snd (run_pipeline lib env rc) =
     (case snd (pipeline lib env rc) of Inl e \<Rightarrow> Exit 1 | Inr u \<Rightarrow> Exit 0)"
  by (simp add: run_pipeline_def split: prod.splits sum.splits)

section \<open>Steps that succeed, and the example run\<close>

lemma setup_phase_ok:
  assumes "mlx_installed env" "import_mlx_lm env = None"
  shows "snd (setup_phase env rc) = Inr (resolve_hf_model (rc_base_model rc))"
  using assms by (simp add: setup_phase_def io_rules)

lemma data_phase_ok:
  assumes "convert_jsonl_to_mlx_format lib (dataset_lines env) = Inr (files, n)"
    and "rc_epochs rc = Some k"
  shows "snd (data_phase lib env rc r)
           = Inr \<lparr>resume_from_iter = r, n_epochs = k, iters_per_epoch = max 1 (int n div 4),
                  total_iters = max 1 (int n div 4) * k, dataset_size = n\<rparr>"
  using assms by (simp add: data_phase_def io_rules)

lemma example_dataset:
  "convert_jsonl_to_mlx_format example_lib (Inr [''{a''])
     = Inr (\<lparr>train_jsonl = [Example (''<|user|>'' @ nl @ ''a'' @ nl)],
              valid_jsonl = [Example (''<|user|>'' @ nl @ ''a'' @ nl)]\<rparr>, 1)"
proof -
  have r: "read_examples example_lib [] [''{a''] = Inr [Example (''<|user|>'' @ nl @ ''a'' @ nl)]"
    by (simp add: example_lib_def example_loads_def strip_def is_space_def format_example_def
        format_message_def dict_get_def)
  have i: "int_times_0_9 1 = 0" using int_times_0_9_exact[of 1] by simp
  show ?thesis
    by (simp add: convert_jsonl_to_mlx_format_def r i last_n_def del: read_examples.simps)
qed

lemma example_data_phase:
  assumes "dataset_lines env = Inr [''{a'']" "rc_epochs rc = Some 3"
  shows "snd (data_phase example_lib env rc r) = Inr (example_run_ctx r)"
  using data_phase_ok[of example_lib env _ 1 rc 3 r] example_dataset assms
  by (simp add: example_run_ctx_def)

lemma example_training_part:
  assumes "mlx_installed env" "import_mlx_lm env = None" "dataset_lines env = Inr [''{a'']"
    and "lora_process env = ([], 0)" "rc_epochs rc = Some 3" "\<not> rc_resume rc"
  shows "snd (training_part example_lib env rc)
           = Inr (resolve_hf_model (rc_base_model rc), example_run_ctx 0, [])"
proof -
  have s: "snd (setup_phase env rc) = Inr (resolve_hf_model (rc_base_model rc))"
    using assms(1,2) by (rule setup_phase_ok)
  have r: "snd (resume_phase env rc) = Inr 0" using assms(6) by (simp add: resume_phase_result)
  have d: "snd (data_phase example_lib env rc 0) = Inr (example_run_ctx 0)"
    using assms(3,5) by (rule example_data_phase)
  have n: "\<not> total_iters (example_run_ctx 0) - resume_from_iter (example_run_ctx 0) \<le> 0"
    by (simp add: example_run_ctx_def)
  have t: "snd (training_phase example_lib env rc (resolve_hf_model (rc_base_model rc))
      (example_run_ctx 0)) = Inr []"
    by (simp add: training_phase_run(2)[OF n] assms(4) initial_state_def)
  show ?thesis by (simp add: training_part_result s r d t)
qed

text \<open>A run whose training part, fuse step and import step succeed ends with the snapshot
  of completion and status 0, whatever the conversion did.\<close>

lemma run_completes:
  assumes "snd (training_part lib env rc) = Inr (hf, ctx, h)"
    and "fuse_process env = None" and "ollama_process env = Inr code"
  shows "snd (run_pipeline lib env rc) = Exit 0"
    and "last (fst (run_pipeline lib env rc)) = Write_progress (completed_snapshot rc ctx h)"
    and "last (snapshots (fst (run_pipeline lib env rc))) = completed_snapshot rc ctx h"
proof -
  have r: "snd (pipeline lib env rc) = Inr ()"
    by (simp add: pipeline_result assms post_phase_result)
  then show "snd (run_pipeline lib env rc) = Exit 0" by (simp add: run_pipeline_result)
  have e: "fst (run_pipeline lib env rc)
      = (fst (training_part lib env rc)
         @ [Write_progress (post_snapshot rc ctx h Fusing_model 96
                              ''Fusing adapters with base model...''),
            Subprocess (Fuse hf (adapter_path rc) (fused_path rc)),
            Write_progress (post_snapshot rc ctx h Converting_gguf 97
                              ''Converting model to GGUF format...'')]
         @ fst (convert_phase env rc)
         @ [Write_progress (post_snapshot rc ctx h Importing_ollama 99
                              ''Importing model to Ollama...''),
            Write_modelfile (modelfile_path rc)
              (model_source env rc (case snd (convert_phase env rc) of Inr r \<Rightarrow> r | Inl e \<Rightarrow> None)),
            Subprocess (Ollama_create (rc_output rc) (modelfile_path rc))])
        @ [Write_progress (completed_snapshot rc ctx h)]"
    by (simp add: run_pipeline_events r pipeline_events assms post_phase_events)
  show "last (fst (run_pipeline lib env rc)) = Write_progress (completed_snapshot rc ctx h)"
    by (subst e) (rule last_snoc)
  show "last (snapshots (fst (run_pipeline lib env rc))) = completed_snapshot rc ctx h"
    by (subst e) (simp add: snapshots_append)
qed

section \<open>Properties of the progress value\<close>

lemma round53_le_pow2:
  assumes "0 \<le> x" "x < 2 powi k"
  shows "round53 x \<le> 2 powi k"
proof (cases "x = 0")
  case True
  then show ?thesis by (simp add: round53_def)
next
  case False
  with assms have x: "0 < x" by simp
  have "ilog2 x + 1 \<le> k" using ilog2_less[OF x assms(2)] by simp
  then have "(2::rat) powi (ilog2 x + 1) \<le> 2 powi k" by (intro power_int_increasing) simp_all
  with round53_upper[OF x] show ?thesis by linarith
qed

lemma pow2_less: "a < b \<Longrightarrow> (2::rat) powi a < 2 powi b"
  by (rule power_int_strict_increasing) simp_all

lemma true_div_nonneg:
  assumes "0 \<le> a" "0 < b" "true_div a b = Inr q"
  shows "q = round53 (of_int a / of_int b)" "0 \<le> q"
proof -
  show q: "q = round53 (of_int a / of_int b)"
    using assms by (simp add: true_div_def Let_def split: if_splits)
  have "(0::rat) \<le> of_int a / of_int b" using assms by simp
  then show "0 \<le> q" unfolding q by (rule round53_nonneg)
qed

lemma int_times_65_nonneg:
  assumes "0 \<le> q" "int_times_65 q = Inr k"
  shows "k = trunc (round53 (q * 65))" "0 \<le> k"
proof -
  show k: "k = trunc (round53 (q * 65))"
    using assms by (simp add: int_times_65_def Let_def split: if_splits)
  have "0 \<le> round53 (q * 65)" using assms(1) by (intro round53_nonneg) simp
  then show "0 \<le> k" unfolding k by (simp add: trunc_def)
qed

text \<open>For a non-negative iteration and a positive total, the progress value is at least 30
  and grows with the iteration.\<close>

lemma progress_value_ge_30:
  assumes "0 \<le> a" "0 < b" "progress_value a b = Inr p"
  shows "30 \<le> p"
proof -
  from assms(3) obtain q k where qk: "true_div a b = Inr q" "int_times_65 q = Inr k" "p = 30 + k"
    by (auto simp: progress_value_def split: sum.splits)
  from true_div_nonneg(2)[OF assms(1,2) qk(1)] int_times_65_nonneg(2)[OF _ qk(2)] qk(3)
  show ?thesis by simp
qed

lemma progress_value_mono:
  assumes "0 \<le> a" "a \<le> a'" "0 < b"
    and "progress_value a b = Inr p" "progress_value a' b = Inr p'"
  shows "p \<le> p'"
proof -
  from assms(4) obtain q k where qk: "true_div a b = Inr q" "int_times_65 q = Inr k" "p = 30 + k"
    by (auto simp: progress_value_def split: sum.splits)
  from assms(5) obtain q' k' where qk': "true_div a' b = Inr q'" "int_times_65 q' = Inr k'"
    "p' = 30 + k'"
    by (auto simp: progress_value_def split: sum.splits)
  have a': "0 \<le> a'" using assms(1,2) by simp
  have q: "q = round53 (of_int a / of_int b)" "0 \<le> q"
    using true_div_nonneg[OF assms(1,3) qk(1)] by simp_all
  have q': "q' = round53 (of_int a' / of_int b)" "0 \<le> q'"
    using true_div_nonneg[OF a' assms(3) qk'(1)] by simp_all
  have "(of_int a :: rat) / of_int b \<le> of_int a' / of_int b"
    using assms(2,3) by (simp add: divide_right_mono)
  moreover have "(0::rat) \<le> of_int a / of_int b" using assms(1,3) by simp
  ultimately have "q \<le> q'" unfolding q(1) q'(1) by (intro round53_mono)
  then have "q * 65 \<le> q' * 65" by simp
  moreover have "0 \<le> q * 65" using q(2) by simp
  ultimately have "round53 (q * 65) \<le> round53 (q' * 65)" by (intro round53_mono)
  then have "trunc (round53 (q * 65)) \<le> trunc (round53 (q' * 65))" by (rule trunc_mono)
  then show ?thesis
    using int_times_65_nonneg(1)[OF q(2) qk(2)] int_times_65_nonneg(1)[OF q'(2) qk'(2)] qk(3) qk'(3)
    by simp
qed

text \<open>Below \<open>2\<^sup>5\<^sup>3\<close> the computation of the progress value does not overflow.\<close>

lemma progress_value_defined:
  assumes "0 \<le> a" "0 < b" "a < 2 ^ 53"
  shows "\<exists>p. progress_value a b = Inr p"
proof -
  define x where "x = (of_int a :: rat) / of_int b"
  have x0: "0 \<le> x" using assms(1,2) by (simp add: x_def)
  have "(1::rat) \<le> of_int b" using assms(2) by simp
  then have "of_int a * 1 \<le> (of_int a :: rat) * of_int b"
    using assms(1) by (intro mult_left_mono) simp_all
  then have "x \<le> of_int a" using assms(2) unfolding x_def
    by (simp add: pos_divide_le_eq)
  moreover have "(of_int a :: rat) < of_int (2 ^ 53)" using assms(3) by (simp only: of_int_less_iff)
  ultimately have "x < of_int (2 ^ 53)" by (rule le_less_trans)
  then have xlt: "x < 2 powi 53" by simp
  have q53: "round53 x \<le> 2 powi 53" by (rule round53_le_pow2[OF x0 xlt])
  have q0: "0 \<le> round53 x" by (rule round53_nonneg[OF x0])
  have "(2::rat) powi 53 < double_limit" unfolding double_limit_def by (rule pow2_less) simp
  with q53 q0 have nov: "\<not> double_limit \<le> \<bar>round53 x\<bar>" by linarith
  have td: "true_div a b = Inr (round53 x)"
    using assms(2) nov by (simp add: true_div_def Let_def x_def)
  have "round53 x * 65 \<le> 2 powi 53 * 65" using q53 by (intro mult_right_mono) simp_all
  also have "(2::rat) powi 53 * 65 < 2 powi 53 * 2 powi 7"
    by (intro mult_strict_left_mono) simp_all
  also have "\<dots> = 2 powi (53 + 7)" by (rule pow2_split[symmetric])
  finally have y60: "round53 x * 65 < 2 powi 60" by simp
  have y0: "0 \<le> round53 x * 65" using q0 by simp
  have "round53 (round53 x * 65) \<le> 2 powi 60" by (rule round53_le_pow2[OF y0 y60])
  moreover have "0 \<le> round53 (round53 x * 65)" by (rule round53_nonneg[OF y0])
  moreover have "(2::rat) powi 60 < double_limit" unfolding double_limit_def
    by (rule pow2_less) simp
  ultimately have nov2: "\<not> double_limit \<le> \<bar>round53 (round53 x * 65)\<bar>" by linarith
  have "int_times_65 (round53 x) = Inr (trunc (round53 (round53 x * 65)))"
    using nov2 by (simp add: int_times_65_def Let_def)
  with td show ?thesis by (simp add: progress_value_def)
qed

section \<open>Where the snapshots and checkpoints of a run come from\<close>

text \<open>Outside the read loop no snapshot has an iteration number, and no checkpoint is
  saved.\<close>

lemma setup_phase_snapshots:
  assumes "s \<in> set (snapshots (fst (setup_phase env rc)))"
  shows "p_step s = None \<and> p_loss_history s = None \<and> p_stage s \<noteq> Training
       \<and> p_stage s \<noteq> Failed \<and> p_stage s \<noteq> Resuming \<and> p_progress s \<noteq> 100"
  using assms by (auto simp: setup_phase_events snapshot_of_simps split: if_splits)

lemma resume_phase_snapshots:
  assumes "s \<in> set (snapshots (fst (resume_phase env rc)))"
  shows "\<exists>c. s = resuming_snapshot rc c"
  using assms by (auto simp: resume_phase_events split: if_splits sum.splits option.splits)

lemma data_phase_snapshots:
  assumes "s \<in> set (snapshots (fst (data_phase lib env rc r)))"
  shows "p_step s = None \<and> p_loss_history s = None \<and> p_stage s = Starting_training
       \<and> p_progress s = 15"
  using assms by (auto simp: data_phase_events snapshot_of_def split: sum.splits prod.splits)

lemma direct_phase_snapshot_props:
  assumes "s \<in> set (snapshots (fst (direct_phase env rc hf ctx)))"
  shows "p_step s = None \<and> p_loss_history s = None \<and> p_stage s \<noteq> Training
       \<and> p_stage s \<noteq> Failed \<and> p_stage s \<noteq> Resuming \<and> p_progress s \<noteq> 100"
  using assms
  by (cases "direct_setup env") (auto simp: direct_phase_def io_rules snapshot_of_def)

lemma training_phase_snapshots:
  assumes "s \<in> set (snapshots (fst (training_phase lib env rc hf ctx)))"
  shows "s = training_start_snapshot rc ctx
       \<or> s \<in> set (snapshots (snd (training_loop lib ctx (initial_state ctx)
                                     (fst (lora_process env)))))"
proof (cases "total_iters ctx - resume_from_iter ctx \<le> 0")
  case True
  with assms show ?thesis by (simp add: training_phase_skipped)
next
  case False
  with assms show ?thesis by (auto simp: training_phase_run(1))
qed

lemma post_phase_snapshots:
  assumes "s \<in> set (snapshots (fst (post_phase env rc hf ctx h)))"
  shows "s = post_snapshot rc ctx h Fusing_model 96 ''Fusing adapters with base model...''
       \<or> s = post_snapshot rc ctx h Converting_gguf 97 ''Converting model to GGUF format...''
       \<or> s = post_snapshot rc ctx h Importing_ollama 99 ''Importing model to Ollama...''
       \<or> s = completed_snapshot rc ctx h"
  using assms
  by (auto simp: post_phase_events convert_phase_events snapshots_append
      split: option.splits sum.splits if_splits)

lemma training_part_snapshots:
  assumes "s \<in> set (snapshots (fst (training_part lib env rc)))"
  shows "(p_step s = None \<and> p_loss_history s = None \<and> p_stage s \<noteq> Training
          \<and> p_stage s \<noteq> Failed \<and> p_stage s \<noteq> Resuming \<and> p_progress s \<noteq> 100)
       \<or> (\<exists>c. s = resuming_snapshot rc c)
       \<or> (\<exists>ctx. s = training_start_snapshot rc ctx)
       \<or> (\<exists>r ctx. snd (data_phase lib env rc r) = Inr ctx
             \<and> s \<in> set (snapshots (snd (training_loop lib ctx (initial_state ctx)
                                           (fst (lora_process env))))))"
proof -
  from assms consider
      (in_setup) "s \<in> set (snapshots (fst (setup_phase env rc)))"
    | (in_resume) "s \<in> set (snapshots (fst (resume_phase env rc)))"
    | (in_data) r where "s \<in> set (snapshots (fst (data_phase lib env rc r)))"
    | (in_direct) hf ctx where "s \<in> set (snapshots (fst (direct_phase env rc hf ctx)))"
    | (in_training) hf r ctx where "snd (data_phase lib env rc r) = Inr ctx"
        "s \<in> set (snapshots (fst (training_phase lib env rc hf ctx)))"
    by (auto simp: training_part_events snapshots_append split: sum.splits)
  then show ?thesis
  proof cases
    case in_setup
    from setup_phase_snapshots[OF in_setup] show ?thesis by simp
  next
    case in_resume
    from resume_phase_snapshots[OF in_resume] show ?thesis by simp
  next
    case in_data
    from data_phase_snapshots[OF in_data] show ?thesis by simp
  next
    case in_direct
    from direct_phase_snapshot_props[OF this] show ?thesis by simp
  next
    case in_training
    from training_phase_snapshots[OF in_training(2)] in_training(1) show ?thesis by blast
  qed
qed

lemma run_pipeline_snapshots:
  assumes "s \<in> set (snapshots (fst (run_pipeline lib env rc)))"
  shows "s \<in> set (snapshots (fst (training_part lib env rc)))
       \<or> (\<exists>hf ctx h. snd (training_part lib env rc) = Inr (hf, ctx, h)
             \<and> s \<in> set (snapshots (fst (post_phase env rc hf ctx h))))
       \<or> (\<exists>e. s = failed_snapshot rc e)"
  using assms
  by (auto simp: run_pipeline_events pipeline_events snapshots_append split: sum.splits)

lemma training_part_loop_history:
  assumes "snd (training_part lib env rc) = Inr (hf, ctx, h)"
  shows "\<exists>r. snd (data_phase lib env rc r) = Inr ctx
         \<and> (h = [] \<or> h = loss_history (fst (training_loop lib ctx (initial_state ctx)
                                               (fst (lora_process env)))))"
proof -
  from assms obtain r where r: "snd (data_phase lib env rc r) = Inr ctx"
    "snd (training_phase lib env rc hf ctx) = Inr h"
    by (auto simp: training_part_result split: sum.splits)
  show ?thesis
  proof (cases "total_iters ctx - resume_from_iter ctx \<le> 0")
    case True
    with r show ?thesis by (auto simp: training_phase_skipped)
  next
    case False
    with r show ?thesis by (auto simp: training_phase_run(2) split: if_splits)
  qed
qed

section \<open>The example line in the example run\<close>

lemma example_line_parse:
  "parse_iter example_lib example_line = Inr (''Iter 100: Train loss 0.5'', 100)"
  "parse_loss example_lib ''Iter 100: Train loss 0.5'' = Inr (Some (Finite (1 / 2)))"
  "str_in ''Iter'' example_line \<and> str_in ''Train loss'' example_line"
proof -
  show "parse_iter example_lib example_line = Inr (''Iter 100: Train loss 0.5'', 100)"
    by (simp add: example_line_def parse_iter_def split_def split_ws_def index_def is_space_def
        example_lib_def example_int_def)
  have r: "round53 (1 / 2) = 1 / 2" by code_simp
  have "example_float ''0.5'' = Some (Finite (round53 (1 / 2)))"
    by (simp add: example_float_def split_def)
  then show "parse_loss example_lib ''Iter 100: Train loss 0.5'' = Inr (Some (Finite (1 / 2)))"
    by (simp add: parse_loss_def split_def index_def strip_def is_space_def example_lib_def r)
  show "str_in ''Iter'' example_line \<and> str_in ''Train loss'' example_line"
    by (simp add: example_line_def)
qed

lemma example_progress: "\<exists>p. progress_value 100 3 = Inr p"
  by (rule progress_value_defined) simp_all

lemma example_handle_line:
  assumes "progress_value 100 3 = Inr p"
  shows "handle_line example_lib (example_run_ctx 0) st example_line
           = (st\<lparr>current_iter := 100, current_epoch := 3,
                  loss_history := loss_history st @ [example_entry]\<rparr>,
              progress_events (example_run_ctx 0)
                (st\<lparr>current_iter := 100, current_epoch := 3,
                    loss_history := loss_history st @ [example_entry]\<rparr>)
                p (Finite (1 / 2)))"
proof -
  have "record_progress (example_run_ctx 0) (st\<lparr>current_iter := 100\<rparr>) (Finite (1 / 2))
      = (None, st\<lparr>current_iter := 100, current_epoch := 3,
                   loss_history := loss_history st @ [example_entry]\<rparr>,
         progress_events (example_run_ctx 0)
           (st\<lparr>current_iter := 100, current_epoch := 3,
               loss_history := loss_history st @ [example_entry]\<rparr>)
           p (Finite (1 / 2)))"
    using assms by (simp add: record_progress_def example_run_ctx_def example_entry_def Let_def)
  then have "try_body example_lib (example_run_ctx 0) st example_line
      = (None, st\<lparr>current_iter := 100, current_epoch := 3,
                   loss_history := loss_history st @ [example_entry]\<rparr>,
         progress_events (example_run_ctx 0)
           (st\<lparr>current_iter := 100, current_epoch := 3,
               loss_history := loss_history st @ [example_entry]\<rparr>)
           p (Finite (1 / 2)))"
    by (simp add: try_body_def example_line_parse truthy_float_def)
       (simp add: example_run_ctx_def)
  then show ?thesis by (simp add: handle_line_def example_line_parse)
qed

lemma example_loop_history:
  "loss_history (fst (training_loop example_lib (example_run_ctx 0) st
                        (replicate k example_line)))
     = loss_history st @ replicate k example_entry"
proof (induction k arbitrary: st)
  case 0
  then show ?case by simp
next
  case (Suc k)
  obtain p where p: "progress_value 100 3 = Inr p" using example_progress by blast
  show ?case
    by (simp add: training_loop_Cons example_handle_line[OF p] Suc.IH replicate_app_Cons_same)
qed

lemma example_trained_part:
  "snd (training_part example_lib (example_env_trained k) example_rc)
     = Inr (resolve_hf_model (rc_base_model example_rc), example_run_ctx 0,
            replicate k example_entry)"
proof -
  have s: "snd (setup_phase (example_env_trained k) example_rc)
      = Inr (resolve_hf_model (rc_base_model example_rc))"
    by (rule setup_phase_ok) (simp_all add: example_env_trained_def example_env_def)
  have r: "snd (resume_phase (example_env_trained k) example_rc) = Inr 0"
    by (simp add: resume_phase_result example_rc_def)
  have d: "snd (data_phase example_lib (example_env_trained k) example_rc 0)
      = Inr (example_run_ctx 0)"
    by (rule example_data_phase)
       (simp_all add: example_env_trained_def example_env_def example_rc_def)
  have n: "\<not> total_iters (example_run_ctx 0) - resume_from_iter (example_run_ctx 0) \<le> 0"
    by (simp add: example_run_ctx_def)
  have t: "snd (training_phase example_lib (example_env_trained k) example_rc
      (resolve_hf_model (rc_base_model example_rc)) (example_run_ctx 0))
      = Inr (replicate k example_entry)"
    by (simp add: training_phase_run(2)[OF n] example_env_trained_def example_loop_history
        initial_state_def)
  show ?thesis by (simp add: training_part_result s r d t)
qed

lemma example_trained_events:
  "\<exists>pre post. fst (run_pipeline example_lib (example_env_trained k) example_rc)
     = pre @ snd (training_loop example_lib (example_run_ctx 0) (initial_state (example_run_ctx 0))
                    (replicate k example_line)) @ post"
proof -
  have s: "snd (setup_phase (example_env_trained k) example_rc)
      = Inr (resolve_hf_model (rc_base_model example_rc))"
    by (rule setup_phase_ok) (simp_all add: example_env_trained_def example_env_def)
  have r: "snd (resume_phase (example_env_trained k) example_rc) = Inr 0"
    by (simp add: resume_phase_result example_rc_def)
  have d: "snd (data_phase example_lib (example_env_trained k) example_rc 0)
      = Inr (example_run_ctx 0)"
    by (rule example_data_phase)
       (simp_all add: example_env_trained_def example_env_def example_rc_def)
  have n: "\<not> total_iters (example_run_ctx 0) - resume_from_iter (example_run_ctx 0) \<le> 0"
    by (simp add: example_run_ctx_def)
  have l: "fst (lora_process (example_env_trained k)) = replicate k example_line"
    by (simp add: example_env_trained_def)
  have "\<exists>pre. fst (training_part example_lib (example_env_trained k) example_rc)
      = pre @ snd (training_loop example_lib (example_run_ctx 0) (initial_state (example_run_ctx 0))
                     (replicate k example_line))"
    unfolding training_part_events s r d sum.case training_phase_run(1)[OF n] l
    by (metis append.assoc append_Cons append_Nil)
  then obtain pre where "fst (training_part example_lib (example_env_trained k) example_rc)
      = pre @ snd (training_loop example_lib (example_run_ctx 0) (initial_state (example_run_ctx 0))
                     (replicate k example_line))"
    by blast
  then show ?thesis
    unfolding run_pipeline_events pipeline_events by (metis append.assoc)
qed

section \<open>C1: the train and validation split\<close>

lemma read_examples_all_parsed:
  "map (json_loads lib) (filter (\<lambda>l. strip l \<noteq> []) lines) = map Inr records \<Longrightarrow>
   read_examples lib acc lines = Inr (acc @ map format_example records)"
proof (induction lines arbitrary: acc records)
  case Nil
  then show ?case by simp
next
  case (Cons line rest)
  show ?case
  proof (cases "strip line \<noteq> []")
    case True
    with Cons.prems obtain r rs where rs: "records = r # rs" "json_loads lib line = Inr r"
      "map (json_loads lib) (filter (\<lambda>l. strip l \<noteq> []) rest) = map Inr rs"
      by (cases records) auto
    from Cons.IH[OF rs(3)] rs(1,2) True show ?thesis by simp
  next
    case False
    with Cons.prems have "map (json_loads lib) (filter (\<lambda>l. strip l \<noteq> []) rest) = map Inr records"
      by simp
    from Cons.IH[OF this] False show ?thesis by simp
  qed
qed

lemma last_n_1: "xs \<noteq> [] \<Longrightarrow> last_n 1 xs = [last xs]"
  by (cases xs rule: rev_cases) (simp_all add: last_n_def)

text \<open>
  C1. Let the non-blank lines of the dataset parse to the records \<open>records\<close>, at least one
  and fewer than \<open>2\<^sup>4\<^sup>9\<close> of them (a list of that length does not fit into memory), and let
  \<open>N\<close> be their number and \<open>k = max 1 \<lfloor>9N / 10\<rfloor>\<close>. Then the transformer writes the first \<open>k\<close>
  examples as the train partition and the remaining ones as the validation partition, or,
  when none remain, the last example alone; the validation partition is not empty; and the
  function returns \<open>N\<close>.
\<close>

theorem C1_dataset_split:
  assumes "map (json_loads lib) (filter (\<lambda>l. strip l \<noteq> []) lines) = map Inr records"
    and "1 \<le> length records" and "length records < 2 ^ 49"
  shows "let examples = map format_example records;
             N = length records;
             k = max 1 (9 * N div 10);
             valid = (if k < N then drop k examples else [last examples])
         in convert_jsonl_to_mlx_format lib (Inr lines)
              = Inr (\<lparr>train_jsonl = take k examples, valid_jsonl = valid\<rparr>, N)
            \<and> valid \<noteq> []"
proof -
  define examples where "examples = map format_example records"
  define N where "N = length records"
  define k where "k = max 1 (9 * N div 10)"
  have len: "length examples = N" by (simp add: examples_def N_def)
  have ne: "examples \<noteq> []" using assms(2) len N_def by auto
  have r: "read_examples lib [] lines = Inr examples"
    using read_examples_all_parsed[OF assms(1), of "[]"] by (simp add: examples_def)
  have "int_times_0_9 N = int (9 * N div 10)"
    using assms(3) by (intro int_times_0_9_exact) (simp add: N_def)
  then have idx: "max 1 (int_times_0_9 (length examples)) = int k"
    by (simp add: len k_def)
  have l1: "last_n 1 examples = [last examples]"
    using ne by (rule last_n_1)
  have "convert_jsonl_to_mlx_format lib (Inr lines)
      = Inr (\<lparr>train_jsonl = take k examples,
               valid_jsonl = (if k < length examples then drop k examples
                              else last_n 1 examples)\<rparr>, length examples)"
    by (simp add: convert_jsonl_to_mlx_format_def r idx Let_def)
  then have "convert_jsonl_to_mlx_format lib (Inr lines)
      = Inr (\<lparr>train_jsonl = take k examples,
               valid_jsonl = (if k < N then drop k examples else [last examples])\<rparr>, N)"
    by (simp only: len l1)
  moreover have "(if k < N then drop k examples else [last examples]) \<noteq> []"
    by (simp add: len)
  ultimately show ?thesis
    unfolding examples_def[symmetric] N_def[symmetric] k_def[symmetric] Let_def by simp
qed

theorem C1_dataset_split_witness:
  "convert_jsonl_to_mlx_format example_lib (Inr [''{a'', '' '', ''{b'', ''{c''])
     = Inr (\<lparr>train_jsonl = [Example (''<|user|>'' @ nl @ ''a'' @ nl),
                               Example (''<|user|>'' @ nl @ ''b'' @ nl)],
              valid_jsonl = [Example (''<|user|>'' @ nl @ ''c'' @ nl)]\<rparr>, 3)"
proof -
  have h: "map (json_loads example_lib) (filter (\<lambda>l. strip l \<noteq> []) [''{a'', '' '', ''{b'', ''{c''])
      = map Inr [Some [[''role'' \<mapsto> ''user'', ''content'' \<mapsto> ''a'']],
                 Some [[''role'' \<mapsto> ''user'', ''content'' \<mapsto> ''b'']],
                 Some [[''role'' \<mapsto> ''user'', ''content'' \<mapsto> ''c'']]]"
    by (simp add: example_lib_def example_loads_def strip_def is_space_def)
  show ?thesis
    using C1_dataset_split[OF h]
    by (simp add: Let_def format_example_def format_message_def dict_get_def)
qed

section \<open>C3: a line that fails to parse\<close>

text \<open>
  C3. If the \<^verbatim>\<open>try\<close> body ends with an error on a line, whatever the error and wherever it
  arises, then this pass of the loop writes no file and leaves the loss history as it
  was, and the loop goes on with the next line from the state reached: the error does
  not leave the loop.
\<close>

theorem C3_parse_failure_swallowed:
  assumes "fst (try_body lib ctx st line) = Some err"
  shows "snd (handle_line lib ctx st line) = []
       \<and> loss_history (fst (handle_line lib ctx st line)) = loss_history st
       \<and> training_loop lib ctx st (line # rest)
           = training_loop lib ctx (fst (handle_line lib ctx st line)) rest"
proof -
  obtain st' evs where t: "try_body lib ctx st line = (Some err, st', evs)"
    using assms by (cases "try_body lib ctx st line") auto
  from try_body_error[OF t] have e: "evs = []" "loss_history st' = loss_history st" by simp_all
  have h: "snd (handle_line lib ctx st line) = []
      \<and> loss_history (fst (handle_line lib ctx st line)) = loss_history st"
    using t e by (simp add: handle_line_def)
  then show ?thesis by (simp add: training_loop_Cons)
qed

theorem C3_parse_failure_swallowed_witness:
  "fst (try_body example_lib example_ctx example_state ''Iter x: Train loss 1.0, It/sec 2.0'')
     = Some ValueError
   \<and> handle_line example_lib example_ctx example_state ''Iter x: Train loss 1.0, It/sec 2.0''
     = (example_state, [])
   \<and> training_loop example_lib example_ctx example_state
        [''Iter x: Train loss 1.0, It/sec 2.0'', ''Epoch done'']
     = (example_state, [])"
proof -
  have p: "parse_iter example_lib ''Iter x: Train loss 1.0, It/sec 2.0'' = Inl ValueError"
    by (simp add: parse_iter_def split_def split_ws_def index_def is_space_def
        example_lib_def example_int_def)
  have t: "fst (try_body example_lib example_ctx example_state ''Iter x: Train loss 1.0, It/sec 2.0'')
      = Some ValueError"
    by (simp add: try_body_def p)
  have h: "handle_line example_lib example_ctx example_state ''Iter x: Train loss 1.0, It/sec 2.0''
      = (example_state, [])"
    by (simp add: handle_line_def try_body_def p)
  have n: "handle_line example_lib example_ctx example_state ''Epoch done'' = (example_state, [])"
    by (simp add: handle_line_def)
  from C3_parse_failure_swallowed[OF t, of "[''Epoch done'']"] h n t show ?thesis
    by (simp add: training_loop_Cons)
qed

section \<open>C9: a loss of exactly zero\<close>

text \<open>
  C9. If the iteration number of a progress line parses and its loss parses to \<open>0.0\<close>, the
  line is handled like a line without a loss: the \<^verbatim>\<open>try\<close> body ends without an error, only
  the current iteration is assigned, no entry is appended to the loss history, and neither
  a snapshot nor a checkpoint is written. The loss is tested for truth, and \<open>0.0\<close> is false.
\<close>

theorem C9_zero_loss_not_recorded:
  assumes "parse_iter lib line = Inr (part, rel)"
    and "parse_loss lib part = Inr (Some (Finite 0))"
  shows "try_body lib ctx st line = (None, st\<lparr>current_iter := resume_from_iter ctx + rel\<rparr>, [])
       \<and> snd (handle_line lib ctx st line) = []
       \<and> loss_history (fst (handle_line lib ctx st line)) = loss_history st"
proof -
  have t: "try_body lib ctx st line
      = (None, st\<lparr>current_iter := resume_from_iter ctx + rel\<rparr>, [])"
    using assms by (simp add: try_body_def truthy_float_def)
  then show ?thesis by (simp add: handle_line_def)
qed

theorem C9_zero_loss_not_recorded_witness:
  "parse_iter example_lib ''Iter 5: Train loss 0.0, It/sec 2.0'' = Inr (''Iter 5: Train loss 0.0'', 5)
   \<and> parse_loss example_lib ''Iter 5: Train loss 0.0'' = Inr (Some (Finite 0))
   \<and> handle_line example_lib example_ctx example_state ''Iter 5: Train loss 0.0, It/sec 2.0''
     = (example_state\<lparr>current_iter := 5\<rparr>, [])"
proof -
  have p: "parse_iter example_lib ''Iter 5: Train loss 0.0, It/sec 2.0''
      = Inr (''Iter 5: Train loss 0.0'', 5)"
    by (simp add: parse_iter_def split_def split_ws_def index_def is_space_def
        example_lib_def example_int_def)
  have l: "parse_loss example_lib ''Iter 5: Train loss 0.0'' = Inr (Some (Finite 0))"
    by (simp add: parse_loss_def split_def index_def strip_def is_space_def
        example_lib_def example_float_def round53_def)
  have m: "str_in ''Iter'' ''Iter 5: Train loss 0.0, It/sec 2.0''
      \<and> str_in ''Train loss'' ''Iter 5: Train loss 0.0, It/sec 2.0''"
    by simp
  from C9_zero_loss_not_recorded[OF p l, of example_ctx example_state] p l m show ?thesis
    by (simp add: handle_line_def example_ctx_def)
qed

section \<open>C4: resuming a run whose training is complete\<close>







section \<open>C5: the epoch of an iteration\<close>

text \<open>
  C5. Let a snapshot of a run carry the iteration number \<open>i \<ge> 0\<close>, and let the run have
  \<open>n \<ge> 1\<close> epochs. Then the snapshot names a dataset size, its total number of steps is
  \<open>max 1 (size div 4) \<times> n\<close>, its epoch is \<open>min n (i div max 1 (size div 4) + 1)\<close>, and the
  epoch lies between 1 and \<open>n\<close>.
\<close>

theorem C5_epoch_of_iteration:
  assumes "s \<in> set (snapshots (fst (run_pipeline lib env rc)))"
    and "p_step s = Some i" and "0 \<le> i"
    and "rc_epochs rc = Some n" and "1 \<le> n"
  shows "\<exists>dsize. p_dataset_size s = Some dsize
           \<and> p_total_epochs s = Some n
           \<and> p_total_steps s = Some (max 1 (int dsize div 4) * n)
           \<and> p_epoch s = min n (i div max 1 (int dsize div 4) + 1)
           \<and> 1 \<le> p_epoch s \<and> p_epoch s \<le> n"
proof -
  from run_pipeline_snapshots[OF assms(1)] assms(2)
  have "s \<in> set (snapshots (fst (training_part lib env rc)))"
    using post_phase_snapshots
    by (auto simp: failed_snapshot_simps post_snapshot_simps completed_snapshot_simps
        dest!: post_phase_snapshots)
  from training_part_snapshots[OF this] assms(2) obtain r ctx where
    ctx: "snd (data_phase lib env rc r) = Inr ctx"
    and s: "s \<in> set (snapshots (snd (training_loop lib ctx (initial_state ctx)
                                       (fst (lora_process env)))))"
    by (auto simp: resuming_snapshot_simps training_start_snapshot_simps)
  from training_loop_snapshots[OF s] obtain st' p l where
    sl: "s = training_snapshot ctx st' p l"
    "current_epoch st' = min (n_epochs ctx) (current_iter st' div iters_per_epoch ctx + 1)"
    by blast
  from data_phase_result[OF ctx] assms(4) have
    d: "n_epochs ctx = n" "iters_per_epoch ctx = max 1 (int (dataset_size ctx) div 4)"
    "total_iters ctx = max 1 (int (dataset_size ctx) div 4) * n"
    by simp_all
  have i: "current_iter st' = i" using assms(2) sl(1) by (simp add: training_snapshot_simps)
  have "0 \<le> i div max 1 (int (dataset_size ctx) div 4)"
    using assms(3) by (simp add: pos_imp_zdiv_nonneg_iff)
  then have "1 \<le> min n (i div max 1 (int (dataset_size ctx) div 4) + 1)"
    using assms(5) by simp
  then show ?thesis
    using sl d i by (intro exI[of _ "dataset_size ctx"]) (simp add: training_snapshot_simps)
qed

theorem C5_epoch_of_iteration_witness:
  "\<exists>s \<in> set (snapshots (fst (run_pipeline example_lib (example_env_trained 1) example_rc))).
      p_step s = Some 100
      \<and> (\<exists>dsize. p_dataset_size s = Some dsize
            \<and> p_total_epochs s = Some 3
            \<and> p_total_steps s = Some (max 1 (int dsize div 4) * 3)
            \<and> p_epoch s = min 3 (100 div max 1 (int dsize div 4) + 1)
            \<and> 1 \<le> p_epoch s \<and> p_epoch s \<le> 3)"
proof -
  obtain p where p: "progress_value 100 3 = Inr p" using example_progress by blast
  define st where "st = (initial_state (example_run_ctx 0))\<lparr>current_iter := 100,
      current_epoch := 3,
      loss_history := loss_history (initial_state (example_run_ctx 0)) @ [example_entry]\<rparr>"
  define s where "s = training_snapshot (example_run_ctx 0) st p (Finite (1 / 2))"
  have "snd (training_loop example_lib (example_run_ctx 0) (initial_state (example_run_ctx 0))
              (replicate 1 example_line))
      = progress_events (example_run_ctx 0) st p (Finite (1 / 2))"
    by (simp add: training_loop_Cons example_handle_line[OF p] st_def)
  with example_trained_events[of 1] obtain pre post where
    "fst (run_pipeline example_lib (example_env_trained 1) example_rc)
       = pre @ progress_events (example_run_ctx 0) st p (Finite (1 / 2)) @ post"
    by metis
  then have m: "s \<in> set (snapshots (fst (run_pipeline example_lib (example_env_trained 1)
      example_rc)))"
    by (simp add: snapshots_append snapshots_progress_events s_def)
  have i: "p_step s = Some 100" by (simp add: s_def training_snapshot_simps st_def)
  have e: "rc_epochs example_rc = Some 3" by (simp add: example_rc_def)
  from C5_epoch_of_iteration[OF m i _ e] i m show ?thesis by auto
qed

section \<open>C7: configuration file and required arguments\<close>

text \<open>
  C7. Let the arguments after line 107 be \<open>a\<close>. If a configuration file is given, then each
  of the seven arguments is the value that the file has under its key when the key is
  there, and the command-line value when it is not; the file has been read without error.
  If no configuration file is given, the arguments are those of the command line. And if
  any of base model, dataset, output name, progress file and output directory is unset in
  \<open>a\<close>, then \<^verbatim>\<open>main\<close> ends with the status of \<^verbatim>\<open>parser.error\<close> and has done nothing: no file
  written, no process started.
\<close>

theorem C7_config_merge_and_validation:
  assumes "merged_args env cli = Inr a"
  shows "(truthy_str (config cli) \<longrightarrow>
            (\<exists>cfg. config_json env = Inr cfg
               \<and> base_model a = (case json_baseModel cfg of Some v \<Rightarrow> v | None \<Rightarrow> base_model cli)
               \<and> dataset a = (case json_dataset cfg of Some v \<Rightarrow> v | None \<Rightarrow> dataset cli)
               \<and> output_name a = (case json_output cfg of Some v \<Rightarrow> v | None \<Rightarrow> output_name cli)
               \<and> epochs a = (case json_epochs cfg of Some v \<Rightarrow> v | None \<Rightarrow> epochs cli)
               \<and> progress_file a
                   = (case json_progressFile cfg of Some v \<Rightarrow> v | None \<Rightarrow> progress_file cli)
               \<and> output_dir a = (case json_outputDir cfg of Some v \<Rightarrow> v | None \<Rightarrow> output_dir cli)
               \<and> resume a = (case json_resume cfg of Some v \<Rightarrow> v | None \<Rightarrow> resume cli)))
       \<and> (\<not> truthy_str (config cli) \<longrightarrow> a = cli)
       \<and> (base_model a = None \<or> dataset a = None \<or> output_name a = None
            \<or> progress_file a = None \<or> output_dir a = None
          \<longrightarrow> main lib env cli = ([], Exit 2))"
proof (intro conjI impI)
  assume c: "truthy_str (config cli)"
  with assms obtain cfg where cfg: "config_json env = Inr cfg" "a = apply_config cfg cli"
    by (auto simp: merged_args_def split: sum.splits)
  show "\<exists>cfg. config_json env = Inr cfg
      \<and> base_model a = (case json_baseModel cfg of Some v \<Rightarrow> v | None \<Rightarrow> base_model cli)
      \<and> dataset a = (case json_dataset cfg of Some v \<Rightarrow> v | None \<Rightarrow> dataset cli)
      \<and> output_name a = (case json_output cfg of Some v \<Rightarrow> v | None \<Rightarrow> output_name cli)
      \<and> epochs a = (case json_epochs cfg of Some v \<Rightarrow> v | None \<Rightarrow> epochs cli)
      \<and> progress_file a
          = (case json_progressFile cfg of Some v \<Rightarrow> v | None \<Rightarrow> progress_file cli)
      \<and> output_dir a = (case json_outputDir cfg of Some v \<Rightarrow> v | None \<Rightarrow> output_dir cli)
      \<and> resume a = (case json_resume cfg of Some v \<Rightarrow> v | None \<Rightarrow> resume cli)"
    using cfg by (intro exI[of _ cfg]) (simp add: apply_config_def dict_get_def)
next
  assume "\<not> truthy_str (config cli)"
  with assms show "a = cli" by (simp add: merged_args_def)
next
  assume "base_model a = None \<or> dataset a = None \<or> output_name a = None
      \<or> progress_file a = None \<or> output_dir a = None"
  then have "\<not> required_present a" by (auto simp: required_present_def truthy_str_def)
  then have "validated a = None" by (simp add: validated_def)
  with assms show "main lib env cli = ([], Exit 2)" by (simp add: main_def)
qed

theorem C7_config_merge_and_validation_witness:
  "merged_args (example_env\<lparr>config_json := Inr example_config\<rparr>) example_cli_with_config
     = Inr \<lparr>base_model = Some ''mistral:7b'', dataset = Some ''data.jsonl'', output_name = None,
            epochs = Some 5, progress_file = Some ''progress.json'', output_dir = Some ''out'',
            resume = Some False, config = Some ''run.json''\<rparr>
   \<and> main example_lib (example_env\<lparr>config_json := Inr example_config\<rparr>) example_cli_with_config
     = ([], Exit 2)"
proof -
  have m: "merged_args (example_env\<lparr>config_json := Inr example_config\<rparr>) example_cli_with_config
      = Inr \<lparr>base_model = Some ''mistral:7b'', dataset = Some ''data.jsonl'', output_name = None,
             epochs = Some 5, progress_file = Some ''progress.json'', output_dir = Some ''out'',
             resume = Some False, config = Some ''run.json''\<rparr>"
    by (simp add: merged_args_def example_cli_with_config_def example_cli_def example_config_def
        apply_config_def dict_get_def truthy_str_def)
  from C7_config_merge_and_validation[OF m, of example_lib] m show ?thesis by simp
qed

section \<open>C8: a conversion that fails\<close>

text \<open>
  C8, as the claim states it, fails: the last snapshot of a run whose conversion exits with
  status 1 is the last snapshot of the same run with a successful conversion, message
  included. The failure is printed and nowhere written to the progress file.
\<close>

theorem C8_counterexample:
  "last (snapshots (fst (run_pipeline example_lib (example_env\<lparr>convert_process := Inr 1\<rparr>)
                           example_rc)))
     = last (snapshots (fst (run_pipeline example_lib example_env example_rc)))
   \<and> p_message (last (snapshots (fst (run_pipeline example_lib
                                         (example_env\<lparr>convert_process := Inr 1\<rparr>) example_rc))))
     = ''Training complete! Model: luddo''"
proof -
  have a: "snd (training_part example_lib (example_env\<lparr>convert_process := Inr 1\<rparr>) example_rc)
      = Inr (resolve_hf_model (rc_base_model example_rc), example_run_ctx 0, [])"
    by (rule example_training_part) (simp_all add: example_env_def example_rc_def)
  have b: "snd (training_part example_lib example_env example_rc)
      = Inr (resolve_hf_model (rc_base_model example_rc), example_run_ctx 0, [])"
    by (rule example_training_part) (simp_all add: example_env_def example_rc_def)
  have la: "last (snapshots (fst (run_pipeline example_lib
      (example_env\<lparr>convert_process := Inr 1\<rparr>) example_rc)))
      = completed_snapshot example_rc (example_run_ctx 0) []"
    by (rule run_completes(3)[OF a, of 0]) (simp_all add: example_env_def)
  have lb: "last (snapshots (fst (run_pipeline example_lib example_env example_rc)))
      = completed_snapshot example_rc (example_run_ctx 0) []"
    by (rule run_completes(3)[OF b, of 0]) (simp_all add: example_env_def)
  show ?thesis
    unfolding la lb by (simp add: completed_snapshot_simps example_rc_def)
qed

text \<open>
  C8, amended. Let the steps up to the end of training succeed, the fuse step succeed and
  the import command run. If the conversion fails, by an exception while the model is
  prepared or converted, by a missing script or by a non-zero exit status, then the
  pipeline does not fail: it ends with status 0, it writes a Modelfile that names the fused
  model, and its last event is the snapshot of completion, whose stage is \<open>completed\<close> and
  whose message is the fixed text with the output name, the same for every outcome of the
  conversion.
\<close>

theorem C8_conversion_fallback:
  assumes "snd (training_part lib env rc) = Inr (hf, ctx, h)"
    and "fuse_process env = None"
    and "gguf_prepare env \<noteq> None \<or> \<not> convert_script_exists env \<or> convert_process env \<noteq> Inr 0"
    and "ollama_process env = Inr code"
  shows "snd (run_pipeline lib env rc) = Exit 0
       \<and> Write_modelfile (modelfile_path rc) (fused_path rc) \<in> set (fst (run_pipeline lib env rc))
       \<and> last (fst (run_pipeline lib env rc)) = Write_progress (completed_snapshot rc ctx h)
       \<and> p_stage (completed_snapshot rc ctx h) = Completed
       \<and> p_progress (completed_snapshot rc ctx h) = 100
       \<and> p_message (completed_snapshot rc ctx h) = ''Training complete! Model: '' @ rc_output rc"
proof -
  have c: "snd (convert_phase env rc) = Inr None" using assms(3) by (rule convert_phase_failed)
  have r: "snd (pipeline lib env rc) = Inr ()"
    by (simp add: pipeline_result assms(1,2,4) post_phase_result)
  have "Write_modelfile (modelfile_path rc) (fused_path rc)
      \<in> set (fst (post_phase env rc hf ctx h))"
    by (simp add: post_phase_events assms(2,4) c model_source_def)
  then have m: "Write_modelfile (modelfile_path rc) (fused_path rc)
      \<in> set (fst (run_pipeline lib env rc))"
    by (simp add: run_pipeline_events pipeline_events assms(1))
  show ?thesis
    using run_completes(1,2)[OF assms(1,2,4)] m by (simp add: completed_snapshot_simps)
qed

theorem C8_conversion_fallback_witness:
  "snd (run_pipeline example_lib (example_env\<lparr>convert_process := Inr 1\<rparr>) example_rc) = Exit 0
   \<and> Write_modelfile (modelfile_path example_rc) (fused_path example_rc)
       \<in> set (fst (run_pipeline example_lib (example_env\<lparr>convert_process := Inr 1\<rparr>) example_rc))
   \<and> last (fst (run_pipeline example_lib (example_env\<lparr>convert_process := Inr 1\<rparr>) example_rc))
       = Write_progress (completed_snapshot example_rc (example_run_ctx 0) [])"
proof -
  have a: "snd (training_part example_lib (example_env\<lparr>convert_process := Inr 1\<rparr>) example_rc)
      = Inr (resolve_hf_model (rc_base_model example_rc), example_run_ctx 0, [])"
    by (rule example_training_part) (simp_all add: example_env_def example_rc_def)
  have b: "fuse_process (example_env\<lparr>convert_process := Inr 1\<rparr>) = None"
    by (simp add: example_env_def)
  have c: "gguf_prepare (example_env\<lparr>convert_process := Inr 1\<rparr>) \<noteq> None
      \<or> \<not> convert_script_exists (example_env\<lparr>convert_process := Inr 1\<rparr>)
      \<or> convert_process (example_env\<lparr>convert_process := Inr 1\<rparr>) \<noteq> Inr 0"
    by simp
  have d: "ollama_process (example_env\<lparr>convert_process := Inr 1\<rparr>) = Inr 0"
    by (simp add: example_env_def)
  from C8_conversion_fallback[OF a b c d] show ?thesis by simp
qed

section \<open>C10: the loss history of the checkpoint is not carried over\<close>





end
